theory Spec2Isabelle
  imports Main
begin

section \<open>Values shared by the services\<close>

text \<open>
  JavaScript values that travel through the command results and the tool arguments: the
  JSON values, with \<open>undefined\<close> as \<open>None\<close> of an option where a property may be
  missing. Numbers are only carried, never computed on, so a payload number is an integer.
  An object is its list of properties, in insertion order.
\<close>

datatype json =
    JNull
  | JBool bool
  | JNum int
  | JStr string
  | JArr "json list"
  | JObj "(string \<times> json) list"

text \<open>\<open>Array.isArray(v)\<close>, and \<open>v !== null && v !== undefined\<close>.\<close>

fun isArray :: "json option \<Rightarrow> bool" where
  "isArray (Some (JArr xs)) = True"
| "isArray v = False"

fun hasData :: "json option \<Rightarrow> bool" where
  "hasData None = False"
| "hasData (Some JNull) = False"
| "hasData (Some v) = True"

text \<open>\<open>String(n)\<close> and \<open>`${n}`\<close> for an integer: its decimal digits.\<close>

definition digit_char :: "nat \<Rightarrow> char" where
  "digit_char d = char_of (48 + d)"

fun String_nat :: "nat \<Rightarrow> string" where
  "String_nat n = (if n < 10 then [digit_char n] else String_nat (n div 10) @ [digit_char (n mod 10)])"

definition String_int :: "int \<Rightarrow> string" where
  "String_int i = (if i < 0 then CHR ''-'' # String_nat (nat (- i)) else String_nat (nat i))"

text \<open>\<open>haystack.includes(needle)\<close>.\<close>

fun str_includes :: "string \<Rightarrow> string \<Rightarrow> bool" where
  "str_includes [] needle = (needle = [])"
| "str_includes (c # cs) needle = (take (length needle) (c # cs) = needle \<or> str_includes cs needle)"

text \<open>
  \<open>String.prototype.trim\<close> and \<open>split('\n')\<close>. A \<open>char\<close> stands for a code unit below
  256; the white space and line terminators of ECMAScript in that range are the six control
  characters below, the space and the no-break space.
\<close>

definition isWhiteSpace :: "char \<Rightarrow> bool" where
  "isWhiteSpace c = (of_char c \<in> {9, 10, 11, 12, 13, 32, 160 :: nat})"

definition trim :: "string \<Rightarrow> string" where
  "trim s = rev (dropWhile isWhiteSpace (rev (dropWhile isWhiteSpace s)))"

fun split_lines :: "string \<Rightarrow> string list" where
  "split_lines [] = [[]]"
| "split_lines (c # cs) =
     (if c = CHR 0x0A then [] # split_lines cs
      else (case split_lines cs of l # ls \<Rightarrow> (c # l) # ls | [] \<Rightarrow> [[c]]))"

section \<open>The command queue service (command-queue.js)\<close>

text \<open>A \<open>{ input, output, total }\<close> token counter.\<close>

record token_usage =
  tok_input :: nat
  tok_output :: nat
  tok_total :: nat

definition zero_usage :: token_usage where
  "zero_usage = \<lparr>tok_input = 0, tok_output = 0, tok_total = 0\<rparr>"

datatype cmd_status = Executing | Completed | Failed | Stopped | Retrying

text \<open>
  One tool call of a model response (\<open>id\<close>, \<open>function.name\<close>, \<open>function.arguments\<close>, the
  arguments still a JSON-encoded string), the entry the executor logs for it once the
  arguments are parsed, and the tool-role message that answers it. The time stamps of the
  source (\<open>new Date().toLocaleTimeString()\<close>) are left out everywhere.
\<close>

record tool_call =
  call_id :: string
  call_name :: string
  call_arguments :: string

record tool_call_event =
  ev_name :: string
  ev_args :: json
  ev_id :: string

record tool_result =
  tool_call_id :: string
  content :: string

text \<open>The \<open>commandRecord\<close> object that \<open>executeCommand\<close> keeps for one attempt.\<close>

record command_record =
  rec_command :: string
  rec_status :: cmd_status
  toolCalls :: "tool_call_event list"
  toolResults :: "tool_result list"
  responses :: "string list"
  rec_tokenUsage :: token_usage
  rec_error :: "string option"
  completedAt :: bool

text \<open>An entry of \<open>commandResults\<close>.\<close>

record command_result =
  command :: string
  status :: cmd_status
  error :: "string option"
  data :: "json option"
  commandHistory :: "command_record list"
  tokenUsage :: token_usage

text \<open>
  The module state of command-queue.js. \<open>storedExecuteCommandFn\<close> records whether a
  function is stored (the function itself is passed to the operations that call it), and
  \<open>timers\<close> holds the delay of every pending \<open>setTimeout(() => processNextCommand(...))\<close>.
\<close>

record queue =
  currentCommands :: "string list"
  currentCommandIndex :: nat
  commandResults :: "command_result list"
  isProcessingCommands :: bool
  showResults :: bool
  isPaused :: bool
  shouldStopCurrent :: bool
  currentTokenUsage :: token_usage
  totalTokenUsage :: token_usage
  storedExecuteCommandFn :: bool
  timers :: "nat list"

text \<open>
  An \<open>executeCommandFn\<close>: run on a command text it changes the queue state, and it may
  throw (\<open>Some message\<close>).
\<close>

type_synonym execute_fn = "string \<Rightarrow> queue \<Rightarrow> string option \<times> queue"

definition parse_commands :: "string \<Rightarrow> string list" where
  "parse_commands commandQueueText =
     filter (\<lambda>cmd. length cmd > 0) (map trim (split_lines commandQueueText))"

definition processNextCommand :: "execute_fn \<Rightarrow> queue \<Rightarrow> queue" where
  "processNextCommand executeCommandFn q =
     (if isPaused q then q
      else if currentCommandIndex q \<ge> length (currentCommands q)
      then q\<lparr>isProcessingCommands := False, showResults := True\<rparr>
      else
        let currentCommand = currentCommands q ! currentCommandIndex q in
        (case executeCommandFn currentCommand q of
           (None, q') \<Rightarrow> q'
         | (Some message, q') \<Rightarrow>
             q'\<lparr>commandResults := commandResults q' @
                   [\<lparr>command = currentCommand, status = Failed, error = Some message,
                     data = Some JNull, commandHistory = [],
                     tokenUsage = currentTokenUsage q'\<rparr>],
                 currentCommandIndex := currentCommandIndex q' + 1,
                 timers := timers q' @ [1000]\<rparr>))"

text \<open>The assignments of \<open>startCommandQueue\<close> before it calls \<open>processNextCommand\<close>.\<close>

definition start_reset :: "string list \<Rightarrow> queue \<Rightarrow> queue" where
  "start_reset commands q =
     q\<lparr>currentCommands := commands,
       currentCommandIndex := 0,
       commandResults := [],
       isProcessingCommands := True,
       totalTokenUsage := zero_usage,
       storedExecuteCommandFn := True\<rparr>"

definition startCommandQueue :: "string \<Rightarrow> execute_fn \<Rightarrow> queue \<Rightarrow> queue" where
  "startCommandQueue commandQueueText executeCommandFn q =
     (if trim commandQueueText = [] then q
      else
        let commands = parse_commands commandQueueText in
        if length commands = 0 then q
        else processNextCommand executeCommandFn (start_reset commands q))"

definition resetCurrentTokenUsage :: "queue \<Rightarrow> queue" where
  "resetCurrentTokenUsage q = q\<lparr>currentTokenUsage := zero_usage\<rparr>"

definition resetStopFlag :: "queue \<Rightarrow> queue" where
  "resetStopFlag q = q\<lparr>shouldStopCurrent := False\<rparr>"

definition stopCurrentCommand :: "queue \<Rightarrow> queue" where
  "stopCurrentCommand q = q\<lparr>shouldStopCurrent := True\<rparr>"

text \<open>
  \<open>commandResults.findIndex(r => r.command === result.command && r.status === 'retrying')\<close>.
\<close>

fun findIndex :: "('a \<Rightarrow> bool) \<Rightarrow> 'a list \<Rightarrow> nat option" where
  "findIndex p [] = None"
| "findIndex p (x # xs) = (if p x then Some 0 else map_option Suc (findIndex p xs))"

text \<open>The data of the existing result after a retry brought \<open>new\<close>.\<close>

definition merge_data :: "json option \<Rightarrow> json option \<Rightarrow> json option" where
  "merge_data existing new =
     (if hasData new then
        (if hasData existing then
           (case (existing, new) of
              (Some (JArr xs), Some (JArr ys)) \<Rightarrow> Some (JArr (xs @ ys))
            | (Some (JArr xs), Some y) \<Rightarrow> Some (JArr (xs @ [y]))
            | (Some x, Some (JArr ys)) \<Rightarrow> Some (JArr (x # ys))
            | (Some x, Some y) \<Rightarrow> Some (JArr [x, y])
            | _ \<Rightarrow> existing)
         else new)
      else existing)"

definition add_usage :: "token_usage \<Rightarrow> token_usage \<Rightarrow> token_usage" where
  "add_usage a b =
     \<lparr>tok_input = tok_input a + tok_input b, tok_output = tok_output a + tok_output b,
      tok_total = tok_total a + tok_total b\<rparr>"

definition merge_result :: "command_result \<Rightarrow> command_result \<Rightarrow> command_result" where
  "merge_result existingResult result =
     existingResult\<lparr>data := merge_data (data existingResult) (data result),
                    status := status result,
                    error := error result,
                    commandHistory := commandHistory existingResult @ commandHistory result,
                    tokenUsage := add_usage (tokenUsage existingResult) (tokenUsage result)\<rparr>"

definition addCommandResult :: "command_result \<Rightarrow> queue \<Rightarrow> queue" where
  "addCommandResult result q =
     (case findIndex (\<lambda>r. command r = command result \<and> status r = Retrying) (commandResults q) of
        Some existingResultIndex \<Rightarrow>
          q\<lparr>commandResults := (commandResults q)
               [existingResultIndex := merge_result (commandResults q ! existingResultIndex) result]\<rparr>
      | None \<Rightarrow>
          q\<lparr>commandResults := commandResults q @ [result],
            currentCommandIndex := currentCommandIndex q + 1,
            timers := (if storedExecuteCommandFn q \<and> \<not> isPaused q
                       then timers q @ [1000] else timers q)\<rparr>)"

text \<open>
  \<open>retryCommand(commandIndex, executeCommandFn)\<close>. When the retried execution throws, the
  source writes the failure into the result object it fetched before; the model writes it at
  the same index.
\<close>

definition retryCommand :: "int \<Rightarrow> execute_fn \<Rightarrow> queue \<Rightarrow> queue" where
  "retryCommand commandIndex executeCommandFn q =
     (if commandIndex < 0 \<or> commandIndex \<ge> int (length (commandResults q)) then q
      else
        let i = nat commandIndex; commandResult = commandResults q ! i in
        if status commandResult \<noteq> Failed \<and> status commandResult \<noteq> Stopped then q
        else
          let q1 = q\<lparr>commandResults := (commandResults q)
                      [i := commandResult\<lparr>status := Retrying, error := None\<rparr>]\<rparr>;
              q2 = resetCurrentTokenUsage q1
          in (case executeCommandFn (command commandResult) q2 of
                (None, q3) \<Rightarrow> q3
              | (Some message, q3) \<Rightarrow>
                  q3\<lparr>commandResults := (commandResults q3)
                       [i := (commandResults q3 ! i)\<lparr>status := Failed, error := Some message\<rparr>]\<rparr>))"

section \<open>The tools (automation-tools.js)\<close>

text \<open>
  What the services reach outside themselves is gathered in an environment over a world
  \<open>'w\<close> (the remote model, the browser tab, the operator):
  \<^item> \<open>JSON_parse\<close> and \<open>JSON_stringify\<close>, the built-ins; \<open>JSON.parse\<close> answers
    \<open>Inl message\<close> where it throws a SyntaxError;
  \<^item> \<open>chat_completions_create\<close>, one round-trip to the model with the transcript:
    \<open>Inl message\<close> where the call rejects (or the response has no first choice);
  \<^item> \<open>page_tool\<close>, the five page actions (NavigateToUrl, ClickElement, InputText, GoBack,
    GetAbsoluteUrlFromElement): each catches its own errors and always resolves to a string;
  \<^item> \<open>stop_requested\<close>, whether the operator called \<open>stopCurrentCommand()\<close> while the
    last awaited call was pending.
\<close>

record llm_usage =
  prompt_tokens :: "nat option"
  completion_tokens :: "nat option"
  total_tokens :: "nat option"

record assistant_message =
  msg_content :: "string option"
  tool_calls :: "tool_call list"

record llm_response =
  resp_usage :: "llm_usage option"
  resp_message :: assistant_message

datatype api_message =
    Message string string
  | AssistantMessage "string option" "tool_call list"
  | ToolMessage tool_result

record 'w environment =
  JSON_parse :: "string \<Rightarrow> string + json"
  JSON_stringify :: "json \<Rightarrow> string"
  chat_completions_create :: "api_message list \<Rightarrow> 'w \<Rightarrow> (string + llm_response) \<times> 'w"
  page_tool :: "string \<Rightarrow> json \<Rightarrow> 'w \<Rightarrow> string \<times> 'w"
  stop_requested :: "'w \<Rightarrow> bool"

text \<open>\<open>value.name\<close> for a property that may be missing (\<open>undefined\<close> is \<open>None\<close>).\<close>

fun property :: "json \<Rightarrow> string \<Rightarrow> json option" where
  "property (JObj kvs) name = map_of kvs name"
| "property v name = None"

subsection \<open>The Done tool\<close>

definition Done_null_error :: string where
  "Done_null_error =
     ''Error: Done() called with null data. Please extract the requested data first before calling Done().''"

definition Done_null_warning :: string where
  "Done_null_warning =
     ''WARNING: Done() called with null/undefined data. This should only happen if data extraction truly failed.''"

definition Done_empty_warning :: string where
  "Done_empty_warning =
     ''WARNING: Done() called with empty array. Make sure you extracted the requested data.''"

text \<open>The object \<open>{ type: 'COMMAND_COMPLETE', data: parsedData }\<close>.\<close>

definition completion_payload :: "json \<Rightarrow> json" where
  "completion_payload parsedData =
     JObj [(''type'', JStr ''COMMAND_COMPLETE''), (''data'', parsedData)]"

text \<open>
  The implementation of Done: the list of its \<open>console.warn\<close> lines, and \<open>Inr\<close> the string
  it returns or \<open>Inl\<close> the message of what it throws. It throws only where the destructuring
  \<open>const { data } = args\<close> meets \<open>null\<close> (the message is the engine's).
\<close>

definition Done_implementation :: "'w environment \<Rightarrow> json \<Rightarrow> string list \<times> (string + string)" where
  "Done_implementation env args =
     (if args = JNull
      then ([], Inl ''Cannot destructure property 'data' of 'args' as it is null.'')
      else
        (case property args ''data'' of
           None \<Rightarrow> ([Done_null_warning], Inr Done_null_error)
         | Some JNull \<Rightarrow> ([Done_null_warning], Inr Done_null_error)
         | Some d \<Rightarrow>
             (if d = JArr [] then [Done_empty_warning] else [],
              Inr (JSON_stringify env (completion_payload
                (case d of
                   JStr s \<Rightarrow> (case JSON_parse env s of Inr parsed \<Rightarrow> parsed | Inl e \<Rightarrow> JStr s)
                 | _ \<Rightarrow> d))))))"

subsection \<open>The tool table\<close>

datatype tool = PageTool string | DoneTool

definition page_tool_names :: "string list" where
  "page_tool_names =
     [''NavigateToUrl'', ''ClickElement'', ''InputText'', ''GoBack'', ''GetAbsoluteUrlFromElement'']"

text \<open>\<open>tools.find(t => t.function.name === name)\<close>; every entry has an implementation.\<close>

definition find_tool :: "string \<Rightarrow> tool option" where
  "find_tool name =
     (if name \<in> set page_tool_names then Some (PageTool name)
      else if name = ''Done'' then Some DoneTool
      else None)"

section \<open>The command executor (command-executor.js)\<close>

text \<open>
  The arguments of \<open>executeCommand\<close>. \<open>priorHistory\<close> is the \<open>commandHistory\<close> array as
  the caller passes it, \<open>initialMessages\<close> the transcript of the first round-trip (the system
  prompt built from the command and the custom instructions, then \<open>buildApiMessages()\<close>).
\<close>

record exec_params =
  p_command :: string
  apiKey :: string
  priorHistory :: "command_record list"
  initialMessages :: "api_message list"
  maxToolCalls :: int
  maxTokens :: int

text \<open>What one attempt works on: the queue module's state, its own record, the world.\<close>

record 'w exec_state =
  queue_state :: queue
  commandRecord :: command_record
  world :: 'w

definition updateTokenUsage :: "llm_usage \<Rightarrow> 'w exec_state \<Rightarrow> 'w exec_state" where
  "updateTokenUsage u s =
     (let inputTokens = (case prompt_tokens u of Some n \<Rightarrow> n | None \<Rightarrow> 0);
          outputTokens = (case completion_tokens u of Some n \<Rightarrow> n | None \<Rightarrow> 0);
          totalTokens = (case total_tokens u of
                           Some n \<Rightarrow> if n = 0 then inputTokens + outputTokens else n
                         | None \<Rightarrow> inputTokens + outputTokens);
          spent = \<lparr>tok_input = inputTokens, tok_output = outputTokens, tok_total = totalTokens\<rparr>;
          q = queue_state s; r = commandRecord s
      in s\<lparr>queue_state := q\<lparr>currentTokenUsage := add_usage (currentTokenUsage q) spent,
                              totalTokenUsage := add_usage (totalTokenUsage q) spent\<rparr>,
           commandRecord := r\<lparr>rec_tokenUsage := add_usage (rec_tokenUsage r) spent\<rparr>\<rparr>)"

text \<open>\<open>if (response.usage) updateTokenUsage(response.usage, commandRecord)\<close>.\<close>

definition track_usage :: "llm_response \<Rightarrow> 'w exec_state \<Rightarrow> 'w exec_state" where
  "track_usage response s = (case resp_usage response of None \<Rightarrow> s | Some u \<Rightarrow> updateTokenUsage u s)"

text \<open>
  The state when an awaited external call resumes in world \<open>w\<close>: a stop requested in the
  meantime has set the flag.
\<close>

definition resumed :: "'w environment \<Rightarrow> 'w \<Rightarrow> 'w exec_state \<Rightarrow> 'w exec_state" where
  "resumed env w s =
     s\<lparr>world := w,
       queue_state := (if stop_requested env w then stopCurrentCommand (queue_state s)
                       else queue_state s)\<rparr>"

text \<open>The call of \<open>addCommandResult\<close> that ends an attempt.\<close>

definition report :: "exec_params \<Rightarrow> cmd_status \<Rightarrow> string option \<Rightarrow> json option \<Rightarrow>
    'w exec_state \<Rightarrow> 'w exec_state" where
  "report p st err d s =
     s\<lparr>queue_state := addCommandResult
          \<lparr>command = p_command p, status = st, error = err, data = d,
           commandHistory = priorHistory p @ [commandRecord s],
           tokenUsage = currentTokenUsage (queue_state s)\<rparr> (queue_state s)\<rparr>"

definition stop_attempt :: "exec_params \<Rightarrow> 'w exec_state \<Rightarrow> 'w exec_state" where
  "stop_attempt p s =
     report p Stopped (Some ''Command stopped by user'') (Some JNull)
       (s\<lparr>queue_state := resetStopFlag (queue_state s),
          commandRecord := (commandRecord s)\<lparr>rec_status := Stopped,
             rec_error := Some ''Command stopped by user'', completedAt := True\<rparr>\<rparr>)"

definition fail_attempt :: "exec_params \<Rightarrow> string \<Rightarrow> 'w exec_state \<Rightarrow> 'w exec_state" where
  "fail_attempt p message s =
     report p Failed (Some message) (Some JNull)
       (s\<lparr>commandRecord := (commandRecord s)\<lparr>rec_status := Failed,
             rec_error := Some message, completedAt := True\<rparr>\<rparr>)"

definition push_result :: "tool_result \<Rightarrow> 'w exec_state \<Rightarrow> 'w exec_state" where
  "push_result toolResult s =
     s\<lparr>commandRecord := (commandRecord s)\<lparr>toolResults := toolResults (commandRecord s) @ [toolResult]\<rparr>\<rparr>"

definition complete_attempt :: "exec_params \<Rightarrow> tool_call \<Rightarrow> string \<Rightarrow> json option \<Rightarrow>
    'w exec_state \<Rightarrow> 'w exec_state" where
  "complete_attempt p toolCall result actualData s =
     report p Completed None actualData
       (s\<lparr>commandRecord := (commandRecord s)\<lparr>rec_status := Completed, completedAt := True,
             toolResults := toolResults (commandRecord s) @
               [\<lparr>tool_call_id = call_id toolCall, content = result\<rparr>]\<rparr>\<rparr>)"

text \<open>\<open>await tool.implementation(args)\<close>: the outcome and the state in which the loop resumes.\<close>

definition run_tool :: "'w environment \<Rightarrow> tool \<Rightarrow> json \<Rightarrow> 'w exec_state \<Rightarrow>
    (string + string) \<times> 'w exec_state" where
  "run_tool env t args s =
     (case t of
        DoneTool \<Rightarrow> (snd (Done_implementation env args), s)
      | PageTool name \<Rightarrow>
          (case page_tool env name args (world s) of
             (result, w) \<Rightarrow> (Inr result, resumed env w s)))"

text \<open>
  The body of the \<open>try\<close> inside the dispatch loop, for one tool call: \<open>Inl\<close> when the
  completion signal ended the attempt (the function returned), otherwise \<open>Inr\<close> the state
  and the tool result that was pushed.
\<close>

definition dispatch_call :: "'w environment \<Rightarrow> exec_params \<Rightarrow> tool_call \<Rightarrow> 'w exec_state \<Rightarrow>
    'w exec_state + ('w exec_state \<times> tool_result)" where
  "dispatch_call env p toolCall s =
     (case JSON_parse env (call_arguments toolCall) of
        Inl message \<Rightarrow>
          (let errorResult = \<lparr>tool_call_id = call_id toolCall, content = ''Error: '' @ message\<rparr>
           in Inr (push_result errorResult s, errorResult))
      | Inr args \<Rightarrow>
          (case find_tool (call_name toolCall) of
             None \<Rightarrow>
               (let errorResult = \<lparr>tool_call_id = call_id toolCall,
                                   content = ''Error: Unknown tool '' @ call_name toolCall\<rparr>
                in Inr (push_result errorResult s, errorResult))
           | Some t \<Rightarrow>
               (case run_tool env t args s of
                  (Inl message, s') \<Rightarrow>
                    (let errorResult = \<lparr>tool_call_id = call_id toolCall,
                                        content = ''Error: '' @ message\<rparr>
                     in Inr (push_result errorResult s', errorResult))
                | (Inr result, s') \<Rightarrow>
                    (let toolResult = \<lparr>tool_call_id = call_id toolCall, content = result\<rparr>;
                         regular = Inr (push_result toolResult s', toolResult)
                     in if str_includes result ''COMMAND_COMPLETE''
                        then (case JSON_parse env result of
                                Inl parseError \<Rightarrow> regular
                              | Inr JNull \<Rightarrow> regular
                              | Inr completionData \<Rightarrow>
                                  Inl (complete_attempt p toolCall result
                                         (property completionData ''data'') s'))
                        else regular))))"

text \<open>
  The \<open>for\<close> loop that executes the tool calls of one response in order, with the stop
  check before each call; \<open>toolCallResults\<close> collects the tool-role messages.
\<close>

fun dispatch_calls :: "'w environment \<Rightarrow> exec_params \<Rightarrow> tool_call list \<Rightarrow> 'w exec_state \<Rightarrow>
    tool_result list \<Rightarrow> 'w exec_state + ('w exec_state \<times> tool_result list)" where
  "dispatch_calls env p [] s toolCallResults = Inr (s, toolCallResults)"
| "dispatch_calls env p (toolCall # rest) s toolCallResults =
     (if shouldStopCurrent (queue_state s) then Inl (stop_attempt p s)
      else (case dispatch_call env p toolCall s of
              Inl finished \<Rightarrow> Inl finished
            | Inr (s', toolResult) \<Rightarrow>
                dispatch_calls env p rest s' (toolCallResults @ [toolResult])))"

text \<open>
  The \<open>for\<close> loop that logs the tool calls of a response in \<open>commandRecord.toolCalls\<close>;
  \<open>Inl\<close> carries the message thrown by \<open>JSON.parse\<close> and the record as far as it got.
\<close>

fun record_tool_calls :: "'w environment \<Rightarrow> tool_call list \<Rightarrow> command_record \<Rightarrow>
    (string \<times> command_record) + command_record" where
  "record_tool_calls env [] r = Inr r"
| "record_tool_calls env (toolCall # rest) r =
     (case JSON_parse env (call_arguments toolCall) of
        Inl message \<Rightarrow> Inl (message, r)
      | Inr args \<Rightarrow>
          record_tool_calls env rest
            (r\<lparr>toolCalls := toolCalls r @
                 [\<lparr>ev_name = call_name toolCall, ev_args = args, ev_id = call_id toolCall\<rparr>]\<rparr>))"

definition token_limit_message :: "int \<Rightarrow> nat \<Rightarrow> string" where
  "token_limit_message limit used =
     ''Token limit reached ('' @ String_int limit @ ''). Current usage: '' @ String_nat used @ '' tokens''"

text \<open>The code after the \<open>while\<close> loop: the attempt completes without a Done call.\<close>

definition finish_without_done :: "exec_params \<Rightarrow> assistant_message \<Rightarrow> 'w exec_state \<Rightarrow> 'w exec_state" where
  "finish_without_done p assistantMessage s =
     (let text_content = (case msg_content assistantMessage of
                            None \<Rightarrow> [] | Some c \<Rightarrow> c);
          r = commandRecord s;
          r1 = (if text_content \<noteq> [] then r\<lparr>responses := responses r @ [text_content]\<rparr> else r)
      in report p Completed None
           (Some (JStr (if text_content \<noteq> [] then text_content else ''Command completed'')))
           (s\<lparr>commandRecord := r1\<lparr>rec_status := Completed, completedAt := True\<rparr>\<rparr>))"

text \<open>
  The \<open>while\<close> loop with everything that follows it, from the test of its condition on;
  a thrown error lands in the \<open>catch\<close> of \<open>executeCommand\<close>, which is \<open>fail_attempt\<close>.
\<close>

function exec_loop :: "'w environment \<Rightarrow> exec_params \<Rightarrow> nat \<Rightarrow> assistant_message \<Rightarrow>
    api_message list \<Rightarrow> 'w exec_state \<Rightarrow> 'w exec_state" where
  "exec_loop env p iterations assistantMessage apiMessages s =
     (if tool_calls assistantMessage \<noteq> [] \<and> int iterations < min (maxToolCalls p) 50
      then
        (if shouldStopCurrent (queue_state s) then stop_attempt p s
         else if int (tok_total (currentTokenUsage (queue_state s))) \<ge> maxTokens p
         then fail_attempt p
                (token_limit_message (maxTokens p) (tok_total (currentTokenUsage (queue_state s)))) s
         else
           (case record_tool_calls env (tool_calls assistantMessage) (commandRecord s) of
              Inl (message, r) \<Rightarrow> fail_attempt p message (s\<lparr>commandRecord := r\<rparr>)
            | Inr r \<Rightarrow>
                (case dispatch_calls env p (tool_calls assistantMessage) (s\<lparr>commandRecord := r\<rparr>) [] of
                   Inl finished \<Rightarrow> finished
                 | Inr (s1, toolCallResults) \<Rightarrow>
                     (let apiMessages1 = apiMessages @
                            [AssistantMessage (msg_content assistantMessage) (tool_calls assistantMessage)] @
                            map ToolMessage toolCallResults
                      in (case chat_completions_create env apiMessages1 (world s1) of
                            (Inl message, w) \<Rightarrow> fail_attempt p message (resumed env w s1)
                          | (Inr response, w) \<Rightarrow>
                              exec_loop env p (iterations + 1) (resp_message response) apiMessages1
                                (track_usage response (resumed env w s1)))))))
      else finish_without_done p assistantMessage s)"
  by pat_completeness auto

termination
  by (relation "measure (\<lambda>(env, p, iterations, rest). nat (min (maxToolCalls p) 50 - int iterations))")
     auto

declare exec_loop.simps [simp del]

definition executeCommand :: "'w environment \<Rightarrow> exec_params \<Rightarrow> queue \<Rightarrow> 'w \<Rightarrow> 'w exec_state" where
  "executeCommand env p q w =
     (let s0 = \<lparr>queue_state = resetCurrentTokenUsage q,
                commandRecord = \<lparr>rec_command = p_command p, rec_status = Executing,
                   toolCalls = [], toolResults = [], responses = [],
                   rec_tokenUsage = zero_usage, rec_error = None, completedAt = False\<rparr>,
                world = w\<rparr>
      in if apiKey p = [] then fail_attempt p ''Please configure your API key in settings'' s0
         else (case chat_completions_create env (initialMessages p) w of
                 (Inl message, w1) \<Rightarrow> fail_attempt p message (resumed env w1 s0)
               | (Inr response, w1) \<Rightarrow>
                   exec_loop env p 0 (resp_message response) (initialMessages p)
                     (track_usage response (resumed env w1 s0))))"

text \<open>
  The tokens that \<open>updateTokenUsage\<close> counts for one response (\<open>inputTokens\<close>,
  \<open>outputTokens\<close>, \<open>totalTokens\<close>); nothing when the response has no usage.
\<close>

definition tokens_of :: "llm_response \<Rightarrow> token_usage" where
  "tokens_of response =
     (case resp_usage response of
        None \<Rightarrow> zero_usage
      | Some u \<Rightarrow>
          (let inputTokens = (case prompt_tokens u of Some n \<Rightarrow> n | None \<Rightarrow> 0);
               outputTokens = (case completion_tokens u of Some n \<Rightarrow> n | None \<Rightarrow> 0)
           in \<lparr>tok_input = inputTokens, tok_output = outputTokens,
               tok_total = (case total_tokens u of
                              Some n \<Rightarrow> if n = 0 then inputTokens + outputTokens else n
                            | None \<Rightarrow> inputTokens + outputTokens)\<rparr>))"

section \<open>The page serializer (class LLMinify of the content script)\<close>

text \<open>
  A DOM node: an element with its tag name (upper case, as \<open>tagName\<close> gives it in an HTML
  document), its attributes (names in lower case, as the HTML parser stores them) and its
  child nodes, or a text node, or a comment. The number of an element is its identity as a
  live object of the page; \<open>cloneNode(true)\<close> copies the structure, and on a copy the number
  tells which live element it was copied from (the code never reads it from a copy).
\<close>

datatype node =
    Element nat string "(string \<times> string) list" "node list"
  | TextNode string
  | CommentNode string

fun isElement :: "node \<Rightarrow> bool" where
  "isElement (Element r t a cs) = True"
| "isElement n = False"

fun tagName :: "node \<Rightarrow> string" where
  "tagName (Element r t a cs) = t"
| "tagName n = []"

fun attributes :: "node \<Rightarrow> (string \<times> string) list" where
  "attributes (Element r t a cs) = a"
| "attributes n = []"

fun childNodes :: "node \<Rightarrow> node list" where
  "childNodes (Element r t a cs) = cs"
| "childNodes n = []"

fun live :: "node \<Rightarrow> nat" where
  "live (Element r t a cs) = r"
| "live n = 0"

definition hasAttribute :: "node \<Rightarrow> string \<Rightarrow> bool" where
  "hasAttribute n name = (name \<in> fst ` set (attributes n))"

definition getAttribute :: "node \<Rightarrow> string \<Rightarrow> string option" where
  "getAttribute n name = map_of (attributes n) name"

text \<open>
  The element itself and the elements below it, in document order: what
  \<open>document.querySelectorAll('*')\<close> yields for the root element. On an element,
  \<open>el.querySelectorAll\<close> yields the elements below \<open>el\<close> only, never \<open>el\<close> itself; the
  steps that go through such a list are written as functions on the child nodes of the clone.
\<close>

fun elements :: "node \<Rightarrow> node list" where
  "elements (Element r t a cs) = Element r t a cs # concat (map elements cs)"
| "elements n = []"

definition interactiveTags :: "string list" where
  "interactiveTags = [''INPUT'', ''BUTTON'', ''SELECT'', ''TEXTAREA'', ''OPTION'', ''A'']"

definition interactiveAttrs :: "string list" where
  "interactiveAttrs =
     [''onclick'', ''onkeydown'', ''onkeyup'', ''onkeypress'',
      ''onchange'', ''oninput'', ''onfocus'', ''onblur'']"

definition controlTags :: "string list" where
  "controlTags = [''INPUT'', ''BUTTON'', ''SELECT'', ''TEXTAREA'', ''OPTION'', ''A'', ''IMG'']"

text \<open>Whether an element matches \<open>_interactiveSelectors\<close>.\<close>

definition interactive :: "node \<Rightarrow> bool" where
  "interactive n =
     (isElement n \<and>
      (tagName n \<in> set interactiveTags \<or> list_ex (hasAttribute n) interactiveAttrs))"

text \<open>
  \<open>_stripAttributes\<close>: on every element below the clone, the attributes that stay
  (\<open>_allowedAttrs\<close> is the empty set).
\<close>

definition keptAttribute :: "string \<Rightarrow> string \<Rightarrow> bool" where
  "keptAttribute tag name =
     ((name = ''value'' \<and> tag \<in> set controlTags) \<or>
      (name = ''checked'' \<and> tag = ''INPUT'') \<or>
      (name = ''selected'' \<and> tag = ''OPTION''))"

fun strip :: "node \<Rightarrow> node" where
  "strip (Element r t a cs) =
     Element r t (filter (\<lambda>kv. keptAttribute t (fst kv)) a) (map strip cs)"
| "strip n = n"

fun stripAttributes :: "node \<Rightarrow> node" where
  "stripAttributes (Element r t a cs) = Element r t a (map strip cs)"
| "stripAttributes n = n"

text \<open>\<open>el.setAttribute(name, value)\<close> on an attribute list.\<close>

fun setAttribute :: "(string \<times> string) list \<Rightarrow> string \<Rightarrow> string \<Rightarrow> (string \<times> string) list" where
  "setAttribute [] name v = [(name, v)]"
| "setAttribute (kv # rest) name v =
     (if fst kv = name then (name, v) # rest else kv # setAttribute rest name v)"

text \<open>
  \<open>_assignElementIds\<close>: the interactive elements below the clone get the numbers
  \<open>llmCounter\<close>, \<open>llmCounter + 1\<close>, ... in document order as their \<open>id\<close> attribute. The
  traversal returns the node with its ids and the next value of the counter.
\<close>

fun number :: "nat \<Rightarrow> node \<Rightarrow> node \<times> nat"
  and number_all :: "nat \<Rightarrow> node list \<Rightarrow> node list \<times> nat" where
  "number k (Element r t a cs) =
     (if interactive (Element r t a cs)
      then (case number_all (k + 1) cs of
              (cs', k') \<Rightarrow> (Element r t (setAttribute a ''id'' (String_nat k)) cs', k'))
      else (case number_all k cs of (cs', k') \<Rightarrow> (Element r t a cs', k')))"
| "number k (TextNode s) = (TextNode s, k)"
| "number k (CommentNode s) = (CommentNode s, k)"
| "number_all k [] = ([], k)"
| "number_all k (n # ns) =
     (case number k n of
        (n', k') \<Rightarrow> (case number_all k' ns of (ns', k'') \<Rightarrow> (n' # ns', k'')))"

text \<open>
  An entry \<open>{ id, el }\<close> of the mapping; \<open>el\<close> is \<open>originalInteractiveEls[i]\<close>, which is
  \<open>undefined\<close> (\<open>None\<close>) past the end of that array.
\<close>

definition nth_opt :: "'a list \<Rightarrow> nat \<Rightarrow> 'a option" where
  "nth_opt xs i = (if i < length xs then Some (xs ! i) else None)"

definition assignElementIds :: "node \<Rightarrow> nat list \<Rightarrow> node \<times> (nat \<times> nat option) list" where
  "assignElementIds clone originalInteractiveEls =
     (case clone of
        Element r t a cs \<Rightarrow>
          (case number_all 1 cs of
             (cs', k) \<Rightarrow>
               (Element r t a cs',
                map (\<lambda>i. (i + 1, nth_opt originalInteractiveEls i)) [0..<k - 1]))
      | _ \<Rightarrow> (clone, []))"

text \<open>Step 5: \<open>el.textContent = ''\<close> on every script, noscript and style below the clone.\<close>

fun blank :: "node \<Rightarrow> node" where
  "blank (Element r t a cs) =
     (if t \<in> set [''SCRIPT'', ''NOSCRIPT'', ''STYLE''] then Element r t a []
      else Element r t a (map blank cs))"
| "blank n = n"

fun blankScripts :: "node \<Rightarrow> node" where
  "blankScripts (Element r t a cs) = Element r t a (map blank cs)"
| "blankScripts n = n"

text \<open>\<open>_removeComments\<close>.\<close>

fun isComment :: "node \<Rightarrow> bool" where
  "isComment (CommentNode s) = True"
| "isComment n = False"

fun removeComments :: "node \<Rightarrow> node" where
  "removeComments (Element r t a cs) =
     Element r t a (map removeComments (filter (\<lambda>c. \<not> isComment c) cs))"
| "removeComments n = n"

text \<open>
  \<open>_removeHiddenElements\<close>. \<open>styleHidden\<close> stands for the computed style of the copy:
  whether \<open>display\<close> is \<open>none\<close> or \<open>visibility\<close> is \<open>hidden\<close>.
\<close>

definition hidden :: "(nat \<Rightarrow> bool) \<Rightarrow> node \<Rightarrow> bool" where
  "hidden styleHidden el =
     (isElement el \<and>
      (hasAttribute el ''hidden'' \<or>
       getAttribute el ''aria-hidden'' = Some ''true'' \<or>
       getAttribute el ''role'' = Some ''presentation'' \<or>
       getAttribute el ''role'' = Some ''none'' \<or>
       styleHidden (live el)))"

fun removeHiddenElements :: "(nat \<Rightarrow> bool) \<Rightarrow> node \<Rightarrow> node" where
  "removeHiddenElements styleHidden (Element r t a cs) =
     Element r t a
       (map (removeHiddenElements styleHidden) (filter (\<lambda>c. \<not> hidden styleHidden c) cs))"
| "removeHiddenElements styleHidden n = n"

text \<open>A text node with \<open>textContent.trim() !== ''\<close>.\<close>

fun realText :: "node \<Rightarrow> bool" where
  "realText (TextNode s) = (trim s \<noteq> [])"
| "realText n = False"

text \<open>
  \<open>_pruneEmptyNodes\<close> visits the elements below the clone in reverse document order, so an
  element is looked at after everything below it; it is removed when the guards let it
  through and it has neither a text child with content nor an element child.
\<close>

definition prunable :: "node \<Rightarrow> bool" where
  "prunable el =
     (isElement el \<and>
      \<not> hasAttribute el ''id'' \<and>
      tagName el \<notin> set controlTags \<and>
      \<not> (tagName el = ''A'' \<and> hasAttribute el ''href'') \<and>
      \<not> list_ex realText (childNodes el) \<and>
      \<not> list_ex isElement (childNodes el))"

fun pruneEmptyNodes :: "node \<Rightarrow> node" where
  "pruneEmptyNodes (Element r t a cs) =
     Element r t a (filter (\<lambda>c. \<not> prunable c) (map pruneEmptyNodes cs))"
| "pruneEmptyNodes n = n"

text \<open>
  \<open>_collapseSingleChildWrappers\<close>, in the same order: an element without id that is no
  control and whose only child node is an element is replaced by that child.
\<close>

definition collapsible :: "node \<Rightarrow> bool" where
  "collapsible el =
     (isElement el \<and>
      \<not> hasAttribute el ''id'' \<and>
      tagName el \<notin> set controlTags \<and>
      length (filter isElement (childNodes el)) = 1 \<and>
      length (filter realText (childNodes el)) = 0 \<and>
      length (childNodes el) = 1)"

fun collapseSingleChildWrappers :: "node \<Rightarrow> node" where
  "collapseSingleChildWrappers (Element r t a cs) =
     Element r t a
       (map (\<lambda>c. let c' = collapseSingleChildWrappers c
                  in if collapsible c' then hd (childNodes c') else c') cs)"
| "collapseSingleChildWrappers n = n"

text \<open>
  The state of an \<open>LLMinify\<close> object. \<open>HTML\<close> is kept as the tree that \<open>_normalizeHTML\<close>
  serializes: the text holds every attribute of every element of that tree.
\<close>

record llminify =
  mapping :: "(nat \<times> nat option) list"
  HTML :: "node option"

definition refresh :: "(nat \<Rightarrow> bool) \<Rightarrow> node \<Rightarrow> llminify" where
  "refresh styleHidden documentElement =
     (let originalInteractiveEls = map live (filter interactive (elements documentElement));
          clone = documentElement;
          stripped = stripAttributes clone;
          (numbered, m) = assignElementIds stripped originalInteractiveEls;
          visible = removeHiddenElements styleHidden (removeComments (blankScripts numbered))
      in \<lparr>mapping = m,
          HTML = Some (collapseSingleChildWrappers (pruneEmptyNodes visible))\<rparr>)"

text \<open>\<open>getElementById(id)\<close>: \<open>None\<close> is \<open>null\<close> (or the \<open>undefined\<close> of a missing element).\<close>

definition getElementById :: "llminify \<Rightarrow> nat \<Rightarrow> nat option" where
  "getElementById page n =
     (case find (\<lambda>m. fst m = n) (mapping page) of
        Some m \<Rightarrow> snd m
      | None \<Rightarrow> None)"

text \<open>
  The elements of a tree that carry an \<open>id\<close> attribute, in document order, each as its
  number, tag and attributes.
\<close>

fun idKeys :: "node \<Rightarrow> (nat \<times> string \<times> (string \<times> string) list) list" where
  "idKeys (Element r t a cs) =
     (if hasAttribute (Element r t a cs) ''id'' then [(r, t, a)] else []) @ concat (map idKeys cs)"
| "idKeys n = []"

section \<open>Sample states for the examples\<close>

definition sample_done_result :: command_result where
  "sample_done_result =
     \<lparr>command = ''list the links'', status = Completed, error = None,
      data = Some (JArr [JStr ''a'']), commandHistory = [], tokenUsage = \<lparr>tok_input = 7, tok_output = 3, tok_total = 10\<rparr>\<rparr>"

definition sample_failed_result :: command_result where
  "sample_failed_result =
     \<lparr>command = ''get the title'', status = Failed, error = Some ''Token limit reached'',
      data = Some JNull, commandHistory = [], tokenUsage = \<lparr>tok_input = 5, tok_output = 5, tok_total = 10\<rparr>\<rparr>"

definition sample_queue :: queue where
  "sample_queue =
     \<lparr>currentCommands = [''list the links'', ''get the title''], currentCommandIndex = 2,
      commandResults = [sample_done_result, sample_failed_result],
      isProcessingCommands = False, showResults = True, isPaused = False,
      shouldStopCurrent = True,
      currentTokenUsage = \<lparr>tok_input = 5, tok_output = 5, tok_total = 10\<rparr>,
      totalTokenUsage = \<lparr>tok_input = 12, tok_output = 8, tok_total = 20\<rparr>,
      storedExecuteCommandFn = True, timers = []\<rparr>"

text \<open>An execution function that leaves a visible trace: it pauses the queue and throws.\<close>

definition sample_fn :: execute_fn where
  "sample_fn cmd q = (Some ''boom'', q\<lparr>isPaused := True\<rparr>)"

definition noop_fn :: execute_fn where
  "noop_fn cmd q = (None, q)"

definition sample_text :: string where
  "sample_text = ''  go to a.test '' @ [CHR 0x0A, CHR 0x09, CHR 0x0A] @ ''get the title''"

definition sample_retrying_queue :: queue where
  "sample_retrying_queue =
     sample_queue\<lparr>commandResults :=
        [sample_done_result, sample_failed_result\<lparr>status := Retrying, error := None\<rparr>],
        currentTokenUsage := \<lparr>tok_input = 30, tok_output = 12, tok_total = 42\<rparr>\<rparr>"

definition sample_retry_outcome :: command_result where
  "sample_retry_outcome =
     \<lparr>command = ''get the title'', status = Completed, error = None,
      data = Some (JStr ''Example Title''), commandHistory = [],
      tokenUsage = \<lparr>tok_input = 30, tok_output = 12, tok_total = 42\<rparr>\<rparr>"

subsection \<open>A scripted environment for the executor\<close>

text \<open>
  A serializer that agrees with \<open>JSON.stringify\<close> on the values of the examples (their
  strings hold printable ASCII only).
\<close>

fun commas :: "string list \<Rightarrow> string" where
  "commas [] = []"
| "commas [x] = x"
| "commas (x # y # rest) = x @ '','' @ commas (y # rest)"

definition quote :: "string \<Rightarrow> string" where
  "quote s = [CHR 0x22] @
     concat (map (\<lambda>c. if c = CHR 0x22 \<or> c = CHR 0x5C then [CHR 0x5C, c] else [c]) s) @
     [CHR 0x22]"

fun stringify_ascii :: "json \<Rightarrow> string" where
  "stringify_ascii JNull = ''null''"
| "stringify_ascii (JBool b) = (if b then ''true'' else ''false'')"
| "stringify_ascii (JNum n) = String_int n"
| "stringify_ascii (JStr s) = quote s"
| "stringify_ascii (JArr xs) = ''['' @ commas (map stringify_ascii xs) @ '']''"
| "stringify_ascii (JObj kvs) =
     ''{'' @ commas (map (\<lambda>kv. quote (fst kv) @ '':'' @ stringify_ascii (snd kv)) kvs) @ ''}''"

text \<open>
  A stand-in for \<open>JSON.parse\<close> on the strings of the examples: it reads back the listed
  values from their serializations and rejects every other string; the strings it rejects in
  the examples (\<open>{\<close>, plain words, the results of the page tools) are not JSON.
\<close>

definition parse_listed :: "json list \<Rightarrow> string \<Rightarrow> string + json" where
  "parse_listed vs s =
     (case find (\<lambda>v. stringify_ascii v = s) vs of
        Some v \<Rightarrow> Inr v
      | None \<Rightarrow> Inl ''Unexpected end of JSON input'')"

definition done_title_args :: json where
  "done_title_args = JObj [(''data'', JStr ''Example Title''), (''reasonForAction'', JStr ''title found'')]"

definition done_encoded_args :: json where
  "done_encoded_args = JObj [(''data'', JStr ''[1,2]''), (''reasonForAction'', JStr ''ids found'')]"

definition done_empty_args :: json where
  "done_empty_args = JObj [(''data'', JArr []), (''reasonForAction'', JStr ''nothing there'')]"

definition done_null_args :: json where
  "done_null_args = JObj [(''data'', JNull), (''reasonForAction'', JStr ''gave up'')]"

definition listed_values :: "json list" where
  "listed_values =
     [JObj [], JArr [JNum 1, JNum 2],
      done_title_args, done_encoded_args, done_empty_args, done_null_args,
      completion_payload (JStr ''Example Title''),
      completion_payload (JArr [JNum 1, JNum 2]),
      completion_payload (JArr [])]"

text \<open>
  A scripted world: the log of the external calls made so far. The model answers the
  \<open>n\<close>-th round-trip with the \<open>n\<close>-th response of the script (and the call fails once the
  script is used up), a page tool answers with its name, and the operator requests a stop
  during the external call that brings the log to \<open>stop_at\<close> entries.
\<close>

definition scripted_env :: "llm_response list \<Rightarrow> nat \<Rightarrow> (string list) environment" where
  "scripted_env script stop_at =
     \<lparr>JSON_parse = parse_listed listed_values,
      JSON_stringify = stringify_ascii,
      chat_completions_create = (\<lambda>msgs w.
         let n = length (filter (\<lambda>e. e = ''chat'') w)
         in (if n < length script then Inr (script ! n) else Inl ''Connection error.'',
             w @ [''chat''])),
      page_tool = (\<lambda>name args w. (name @ '' done'', w @ [name])),
      stop_requested = (\<lambda>w. length w = stop_at)\<rparr>"

definition respond :: "tool_call list \<Rightarrow> nat \<Rightarrow> llm_response" where
  "respond calls spent =
     \<lparr>resp_usage = Some \<lparr>prompt_tokens = Some spent, completion_tokens = Some 0,
                          total_tokens = Some spent\<rparr>,
      resp_message = \<lparr>msg_content = None, tool_calls = calls\<rparr>\<rparr>"

definition sample_params :: exec_params where
  "sample_params =
     \<lparr>p_command = ''get the title'', apiKey = ''sk-test'', priorHistory = [],
      initialMessages = [Message ''system'' ''Complete the following task: get the title''],
      maxToolCalls = 2, maxTokens = 1000\<rparr>"

definition idle_queue :: queue where
  "idle_queue =
     \<lparr>currentCommands = [''get the title''], currentCommandIndex = 0, commandResults = [],
      isProcessingCommands = True, showResults = False, isPaused = False,
      shouldStopCurrent = False, currentTokenUsage = zero_usage, totalTokenUsage = zero_usage,
      storedExecuteCommandFn = True, timers = []\<rparr>"

definition page_call :: "nat \<Rightarrow> string \<Rightarrow> tool_call" where
  "page_call n name =
     \<lparr>call_id = ''call_'' @ String_nat n, call_name = name, call_arguments = ''{}''\<rparr>"

definition three_calls :: "tool_call list" where
  "three_calls = [page_call 1 ''GoBack'', page_call 2 ''ClickElement'', page_call 3 ''GoBack'']"

text \<open>
  The operator requests the stop while the second tool call of the batch is running (the
  third external call: the round-trip, then two page actions).
\<close>

definition stop_env :: "(string list) environment" where
  "stop_env = scripted_env [respond three_calls 10] 3"

definition three_events :: "tool_call_event list" where
  "three_events =
     [\<lparr>ev_name = ''GoBack'', ev_args = JObj [], ev_id = ''call_1''\<rparr>,
      \<lparr>ev_name = ''ClickElement'', ev_args = JObj [], ev_id = ''call_2''\<rparr>,
      \<lparr>ev_name = ''GoBack'', ev_args = JObj [], ev_id = ''call_3''\<rparr>]"

definition ten_tokens :: token_usage where
  "ten_tokens = \<lparr>tok_input = 10, tok_output = 0, tok_total = 10\<rparr>"

text \<open>The attempt after the first round-trip, with the tool calls logged.\<close>

definition batch_state :: "(string list) exec_state" where
  "batch_state =
     \<lparr>queue_state = idle_queue\<lparr>currentTokenUsage := ten_tokens, totalTokenUsage := ten_tokens\<rparr>,
      commandRecord = \<lparr>rec_command = ''get the title'', rec_status = Executing,
         toolCalls = three_events, toolResults = [], responses = [],
         rec_tokenUsage = ten_tokens, rec_error = None, completedAt = False\<rparr>,
      world = [''chat'']\<rparr>"

definition two_results :: "tool_result list" where
  "two_results =
     [\<lparr>tool_call_id = ''call_1'', content = ''GoBack done''\<rparr>,
      \<lparr>tool_call_id = ''call_2'', content = ''ClickElement done''\<rparr>]"

text \<open>The attempt at the poll point of the third call.\<close>

definition third_poll_state :: "(string list) exec_state" where
  "third_poll_state =
     \<lparr>queue_state = idle_queue\<lparr>currentTokenUsage := ten_tokens, totalTokenUsage := ten_tokens,
                                 shouldStopCurrent := True\<rparr>,
      commandRecord = \<lparr>rec_command = ''get the title'', rec_status = Executing,
         toolCalls = three_events, toolResults = two_results, responses = [],
         rec_tokenUsage = ten_tokens, rec_error = None, completedAt = False\<rparr>,
      world = [''chat'', ''GoBack'', ''ClickElement'']\<rparr>"

definition thousand_tokens :: token_usage where
  "thousand_tokens = \<lparr>tok_input = 1000, tok_output = 0, tok_total = 1000\<rparr>"

definition budget_params :: exec_params where
  "budget_params = sample_params\<lparr>maxToolCalls := 50\<rparr>"

text \<open>Every round-trip costs 500 tokens and asks for one more page action.\<close>

definition budget_env :: "(string list) environment" where
  "budget_env = scripted_env (replicate 5 (respond [page_call 1 ''GoBack''] 500)) 0"

text \<open>The model never stops asking for tool calls; the caller allows two iterations.\<close>

definition insistent_env :: "(string list) environment" where
  "insistent_env = scripted_env (replicate 5 (respond [page_call 1 ''GoBack''] 10)) 0"

text \<open>One well-formed call and one whose argument string is not JSON.\<close>

definition malformed_env :: "(string list) environment" where
  "malformed_env =
     scripted_env
       [respond [page_call 1 ''GoBack'',
                 \<lparr>call_id = ''call_2'', call_name = ''ClickElement'', call_arguments = ''{''\<rparr>] 10] 0"

definition thirty_tokens :: token_usage where
  "thirty_tokens = \<lparr>tok_input = 30, tok_output = 0, tok_total = 30\<rparr>"

text \<open>
  The attempt of \<open>sample_params\<close> (two iterations allowed) when the third response, again
  with a tool call, has arrived.
\<close>

definition cap_state :: "(string list) exec_state" where
  "cap_state =
     \<lparr>queue_state = idle_queue\<lparr>currentTokenUsage := thirty_tokens,
                                 totalTokenUsage := thirty_tokens\<rparr>,
      commandRecord = \<lparr>rec_command = ''get the title'', rec_status = Executing,
         toolCalls = [\<lparr>ev_name = ''GoBack'', ev_args = JObj [], ev_id = ''call_1''\<rparr>,
                      \<lparr>ev_name = ''GoBack'', ev_args = JObj [], ev_id = ''call_1''\<rparr>],
         toolResults = [\<lparr>tool_call_id = ''call_1'', content = ''GoBack done''\<rparr>,
                        \<lparr>tool_call_id = ''call_1'', content = ''GoBack done''\<rparr>],
         responses = [], rec_tokenUsage = thirty_tokens, rec_error = None,
         completedAt = False\<rparr>,
      world = [''chat'', ''GoBack'', ''chat'', ''GoBack'', ''chat'']\<rparr>"

definition plain_env :: "(string list) environment" where
  "plain_env = scripted_env [] 0"

subsection \<open>Sample pages\<close>

text \<open>
  \<open><html><head></head><body><div onclick="open()">menu</div><a href="/x">next</a></body></html>\<close>
\<close>

definition onclick_page :: node where
  "onclick_page =
     Element 0 ''HTML'' []
       [Element 1 ''HEAD'' [] [],
        Element 2 ''BODY'' []
          [Element 3 ''DIV'' [(''onclick'', ''open()'')] [TextNode ''menu''],
           Element 4 ''A'' [(''href'', ''/x'')] [TextNode ''next'']]]"

text \<open>
  \<open><html id="top"><head></head><body><a href="/x">next</a><p>more</p></body></html>\<close>
\<close>

definition rooted_page :: node where
  "rooted_page =
     Element 0 ''HTML'' [(''id'', ''top'')]
       [Element 1 ''HEAD'' [] [],
        Element 2 ''BODY'' []
          [Element 3 ''A'' [(''href'', ''/x'')] [TextNode ''next''],
           Element 4 ''P'' [] [TextNode ''more'']]]"

text \<open>No element of the samples is hidden by its computed style.\<close>

definition nothing_hidden :: "nat \<Rightarrow> bool" where
  "nothing_hidden r = False"

subsection \<open>Further states of the executor\<close>

definition five_hundred_tokens :: token_usage where
  "five_hundred_tokens = \<lparr>tok_input = 500, tok_output = 0, tok_total = 500\<rparr>"

text \<open>
  A queue whose per-command counter still holds the 900 tokens of the command before.
\<close>

definition stale_queue :: queue where
  "stale_queue =
     idle_queue\<lparr>currentTokenUsage := \<lparr>tok_input = 900, tok_output = 0, tok_total = 900\<rparr>,
                totalTokenUsage := \<lparr>tok_input = 900, tok_output = 0, tok_total = 900\<rparr>\<rparr>"

text \<open>The attempt started on that queue, when its first response has arrived.\<close>

definition stale_entry_state :: "(string list) exec_state" where
  "stale_entry_state =
     \<lparr>queue_state = idle_queue\<lparr>currentTokenUsage := five_hundred_tokens,
          totalTokenUsage := \<lparr>tok_input = 1400, tok_output = 0, tok_total = 1400\<rparr>\<rparr>,
      commandRecord = \<lparr>rec_command = ''get the title'', rec_status = Executing,
         toolCalls = [], toolResults = [], responses = [],
         rec_tokenUsage = five_hundred_tokens, rec_error = None, completedAt = False\<rparr>,
      world = [''chat'']\<rparr>"

text \<open>The same attempt after the page action of its first batch.\<close>

definition stale_dispatched_state :: "(string list) exec_state" where
  "stale_dispatched_state =
     \<lparr>queue_state = idle_queue\<lparr>currentTokenUsage := five_hundred_tokens,
          totalTokenUsage := \<lparr>tok_input = 1400, tok_output = 0, tok_total = 1400\<rparr>\<rparr>,
      commandRecord = \<lparr>rec_command = ''get the title'', rec_status = Executing,
         toolCalls = [\<lparr>ev_name = ''GoBack'', ev_args = JObj [], ev_id = ''call_1''\<rparr>],
         toolResults = [\<lparr>tool_call_id = ''call_1'', content = ''GoBack done''\<rparr>],
         responses = [], rec_tokenUsage = five_hundred_tokens, rec_error = None,
         completedAt = False\<rparr>,
      world = [''chat'', ''GoBack'']\<rparr>"

text \<open>And before its third round-trip: its own two round-trips have spent 1000 tokens.\<close>

definition stale_ceiling_state :: "(string list) exec_state" where
  "stale_ceiling_state =
     \<lparr>queue_state = idle_queue\<lparr>currentTokenUsage := thousand_tokens,
          totalTokenUsage := \<lparr>tok_input = 1900, tok_output = 0, tok_total = 1900\<rparr>\<rparr>,
      commandRecord = \<lparr>rec_command = ''get the title'', rec_status = Executing,
         toolCalls = [\<lparr>ev_name = ''GoBack'', ev_args = JObj [], ev_id = ''call_1''\<rparr>],
         toolResults = [\<lparr>tool_call_id = ''call_1'', content = ''GoBack done''\<rparr>],
         responses = [], rec_tokenUsage = thousand_tokens, rec_error = None,
         completedAt = False\<rparr>,
      world = [''chat'', ''GoBack'', ''chat'']\<rparr>"

text \<open>A Done call with the given arguments.\<close>

definition done_call :: "json \<Rightarrow> tool_call" where
  "done_call args =
     \<lparr>call_id = ''call_9'', call_name = ''Done'', call_arguments = stringify_ascii args\<rparr>"

text \<open>
  The texts \<open>{"type":"COMMAND_COMPLETE","data":[]}\<close>,
  \<open>{"type":"COMMAND_COMPLETE","data":[1,2]}\<close> and
  \<open>{"type":"COMMAND_COMPLETE","data":"Example Title"}\<close>.
\<close>

definition sentinel_head :: string where
  "sentinel_head =
     ''{'' @ [CHR 0x22] @ ''type'' @ [CHR 0x22] @ '':'' @ [CHR 0x22] @ ''COMMAND_COMPLETE'' @
     [CHR 0x22] @ '','' @ [CHR 0x22] @ ''data'' @ [CHR 0x22] @ '':''"

definition empty_sentinel_text :: string where
  "empty_sentinel_text = sentinel_head @ ''[]}''"

definition encoded_sentinel_text :: string where
  "encoded_sentinel_text = sentinel_head @ ''[1,2]}''"

definition title_sentinel_text :: string where
  "title_sentinel_text = sentinel_head @ [CHR 0x22] @ ''Example Title'' @ [CHR 0x22] @ ''}''"

text \<open>The model answers the first round-trip with one Done call.\<close>

definition done_env :: "json \<Rightarrow> (string list) environment" where
  "done_env args = scripted_env [respond [done_call args] 10] 0"

text \<open>
  A first batch of one page action, then a batch of two; the operator requests the stop while
  the first call of the second batch is running (the fourth external call).
\<close>

definition second_batch :: "tool_call list" where
  "second_batch = [page_call 2 ''ClickElement'', page_call 3 ''GoBack'']"

definition late_stop_env :: "(string list) environment" where
  "late_stop_env = scripted_env [respond [page_call 1 ''GoBack''] 10, respond second_batch 10] 4"

definition twenty_tokens :: token_usage where
  "twenty_tokens = \<lparr>tok_input = 20, tok_output = 0, tok_total = 20\<rparr>"

text \<open>The attempt when its second batch starts, with the calls of both batches logged.\<close>

definition second_batch_state :: "(string list) exec_state" where
  "second_batch_state =
     \<lparr>queue_state = idle_queue\<lparr>currentTokenUsage := twenty_tokens, totalTokenUsage := twenty_tokens\<rparr>,
      commandRecord = \<lparr>rec_command = ''get the title'', rec_status = Executing,
         toolCalls = three_events,
         toolResults = [\<lparr>tool_call_id = ''call_1'', content = ''GoBack done''\<rparr>],
         responses = [], rec_tokenUsage = twenty_tokens, rec_error = None, completedAt = False\<rparr>,
      world = [''chat'', ''GoBack'', ''chat'']\<rparr>"

text \<open>The attempt at the poll point of the second call of that batch.\<close>

definition second_poll_state :: "(string list) exec_state" where
  "second_poll_state =
     \<lparr>queue_state = idle_queue\<lparr>currentTokenUsage := twenty_tokens, totalTokenUsage := twenty_tokens,
                                 shouldStopCurrent := True\<rparr>,
      commandRecord = \<lparr>rec_command = ''get the title'', rec_status = Executing,
         toolCalls = three_events, toolResults = two_results, responses = [],
         rec_tokenUsage = twenty_tokens, rec_error = None, completedAt = False\<rparr>,
      world = [''chat'', ''GoBack'', ''chat'', ''ClickElement'']\<rparr>"

section \<open>Properties of the command queue\<close>

lemma last_dropWhile_ne: "dropWhile P xs \<noteq> [] \<Longrightarrow> last (dropWhile P xs) = last xs"
  by (induction xs) (auto split: if_splits)

lemma trim_hd: "trim s \<noteq> [] \<Longrightarrow> \<not> isWhiteSpace (hd (trim s))"
proof -
  assume ne: "trim s \<noteq> []"
  let ?t = "dropWhile isWhiteSpace s"
  from ne have d: "dropWhile isWhiteSpace (rev ?t) \<noteq> []" by (simp add: trim_def)
  then have t: "?t \<noteq> []" by (cases ?t) simp_all
  have "hd (trim s) = last (dropWhile isWhiteSpace (rev ?t))"
    using d by (simp add: trim_def hd_rev)
  also have "\<dots> = last (rev ?t)" using d by (rule last_dropWhile_ne)
  also have "\<dots> = hd ?t" using t by (simp add: last_rev)
  finally show ?thesis using t hd_dropWhile[of isWhiteSpace s] by simp
qed

lemma trim_last: "trim s \<noteq> [] \<Longrightarrow> \<not> isWhiteSpace (last (trim s))"
proof -
  assume ne: "trim s \<noteq> []"
  let ?t = "dropWhile isWhiteSpace s"
  from ne have d: "dropWhile isWhiteSpace (rev ?t) \<noteq> []" by (simp add: trim_def)
  have "last (trim s) = hd (dropWhile isWhiteSpace (rev ?t))"
    using d by (simp add: trim_def last_rev)
  then show ?thesis using d hd_dropWhile[of isWhiteSpace "rev ?t"] by simp
qed

lemma trim_fixed:
  assumes "s \<noteq> []" "\<not> isWhiteSpace (hd s)" "\<not> isWhiteSpace (last s)"
  shows "trim s = s"
proof -
  have a: "dropWhile isWhiteSpace s = s" using assms(1,2) by (cases s) simp_all
  have "rev s \<noteq> []" "\<not> isWhiteSpace (hd (rev s))" using assms(1,3) by (simp_all add: hd_rev)
  then have b: "dropWhile isWhiteSpace (rev s) = rev s" by (cases "rev s") simp_all
  show ?thesis by (simp add: trim_def a b)
qed

lemma trim_idem: "trim (trim s) = trim s"
proof (cases "trim s = []")
  case True
  have "trim [] = []" by (simp add: trim_def)
  with True show ?thesis by simp
next
  case False
  then show ?thesis by (simp add: trim_hd trim_last trim_fixed)
qed

lemma parse_commands_props:
  "c \<in> set (parse_commands commandQueueText) \<Longrightarrow> c \<noteq> [] \<and> trim c = c"
  by (auto simp: parse_commands_def trim_idem)

text \<open>
  Claim C10. \<open>retryCommand\<close> with an index outside the result list, or on a result whose
  status is neither failed nor stopped, is a complete no-op: whatever the execution function
  would do, it is not run, and the whole queue state (results, index, token counters, flags,
  the target result) is returned unchanged.
\<close>

theorem retryCommand_noop:
  assumes "commandIndex < 0 \<or> commandIndex \<ge> int (length (commandResults q)) \<or>
           (status (commandResults q ! nat commandIndex) \<noteq> Failed \<and>
            status (commandResults q ! nat commandIndex) \<noteq> Stopped)"
  shows "retryCommand commandIndex executeCommandFn q = q"
  using assms by (auto simp: retryCommand_def Let_def)

text \<open>
  The guard at a negative index, at an index past the end and at a completed result; the
  failed result at index 1 is retried and the queue does change.
\<close>

theorem retryCommand_noop_witness:
  "retryCommand (-1) sample_fn sample_queue = sample_queue \<and>
   retryCommand 2 sample_fn sample_queue = sample_queue \<and>
   retryCommand 0 sample_fn sample_queue = sample_queue \<and>
   retryCommand 1 sample_fn sample_queue \<noteq> sample_queue"
proof -
  have a: "retryCommand (-1) sample_fn sample_queue = sample_queue"
    using retryCommand_noop[of "-1" sample_queue sample_fn] by simp
  have b: "retryCommand 2 sample_fn sample_queue = sample_queue"
    using retryCommand_noop[of 2 sample_queue sample_fn] by (simp add: sample_queue_def)
  have c: "retryCommand 0 sample_fn sample_queue = sample_queue"
    using retryCommand_noop[of 0 sample_queue sample_fn]
    by (simp add: sample_queue_def sample_done_result_def)
  have "isPaused (retryCommand 1 sample_fn sample_queue) \<noteq> isPaused sample_queue"
    by (simp add: retryCommand_def sample_queue_def sample_fn_def sample_failed_result_def
        sample_done_result_def  resetCurrentTokenUsage_def Let_def)
  then have d: "retryCommand 1 sample_fn sample_queue \<noteq> sample_queue" by auto
  from a b c d show ?thesis by simp
qed

lemma findIndex_Some:
  "findIndex p xs = Some i \<Longrightarrow> i < length xs \<and> p (xs ! i) \<and> (\<forall>j < i. \<not> p (xs ! j))"
proof (induction xs arbitrary: i)
  case Nil
  then show ?case by simp
next
  case (Cons x xs)
  show ?case
  proof (cases "p x")
    case True
    with Cons.prems show ?thesis by simp
  next
    case False
    with Cons.prems obtain k where k: "findIndex p xs = Some k" "i = Suc k" by auto
    from Cons.IH[OF k(1)] False k(2) show ?thesis by (auto simp: less_Suc_eq_0_disj)
  qed
qed

lemma merge_data_cases:
  "merge_data (Some (JArr xs)) (Some (JArr ys)) = Some (JArr (xs @ ys))"
  "hasData (Some y) \<Longrightarrow> \<not> isArray (Some y) \<Longrightarrow> merge_data (Some (JArr xs)) (Some y) = Some (JArr (xs @ [y]))"
  "hasData (Some x) \<Longrightarrow> \<not> isArray (Some x) \<Longrightarrow> merge_data (Some x) (Some (JArr ys)) = Some (JArr (x # ys))"
  "hasData (Some x) \<Longrightarrow> \<not> isArray (Some x) \<Longrightarrow> hasData (Some y) \<Longrightarrow> \<not> isArray (Some y) \<Longrightarrow>
     merge_data (Some x) (Some y) = Some (JArr [x, y])"
  "\<not> hasData new \<Longrightarrow> merge_data existing new = existing"
  "hasData new \<Longrightarrow> \<not> hasData existing \<Longrightarrow> merge_data existing new = new"
       apply (simp add: merge_data_def)
      apply (cases y; simp add: merge_data_def)
     apply (cases x; simp add: merge_data_def)
    apply (cases x; cases y; simp add: merge_data_def)
   apply (simp add: merge_data_def)
  apply (simp add: merge_data_def)
  done

lemma trim_Nil_iff: "trim s = [] \<longleftrightarrow> (\<forall>c \<in> set s. isWhiteSpace c)"
proof
  assume "trim s = []"
  then have a: "\<forall>c \<in> set (dropWhile isWhiteSpace s). isWhiteSpace c"
    by (simp add: trim_def dropWhile_eq_Nil_conv)
  have "dropWhile isWhiteSpace s = []"
  proof (rule ccontr)
    assume ne: "dropWhile isWhiteSpace s \<noteq> []"
    then have "\<not> isWhiteSpace (hd (dropWhile isWhiteSpace s))" by (rule hd_dropWhile)
    moreover have "hd (dropWhile isWhiteSpace s) \<in> set (dropWhile isWhiteSpace s)"
      using ne by (rule hd_in_set)
    ultimately show False using a by blast
  qed
  then show "\<forall>c \<in> set s. isWhiteSpace c" by (simp add: dropWhile_eq_Nil_conv)
next
  assume "\<forall>c \<in> set s. isWhiteSpace c"
  then have d: "dropWhile isWhiteSpace s = []" by (simp add: dropWhile_eq_Nil_conv)
  show "trim s = []" by (simp only: trim_def d rev.simps dropWhile.simps)
qed

lemma split_lines_subset: "l \<in> set (split_lines s) \<Longrightarrow> set l \<subseteq> set s"
proof (induction s arbitrary: l)
  case Nil
  then show ?case by simp
next
  case (Cons c cs)
  show ?case
  proof (cases "c = CHR 0x0A")
    case True
    with Cons show ?thesis by auto
  next
    case False
    with Cons show ?thesis by (cases "split_lines cs") (auto, blast+)
  qed
qed

lemma parse_commands_blank: "trim commandQueueText = [] \<Longrightarrow> parse_commands commandQueueText = []"
proof -
  assume "trim commandQueueText = []"
  then have ws: "\<forall>c \<in> set commandQueueText. isWhiteSpace c" by (simp add: trim_Nil_iff)
  have "\<forall>l \<in> set (split_lines commandQueueText). trim l = []"
  proof
    fix l assume "l \<in> set (split_lines commandQueueText)"
    then have "set l \<subseteq> set commandQueueText" by (rule split_lines_subset)
    with ws show "trim l = []" by (auto simp: trim_Nil_iff)
  qed
  then show ?thesis by (auto simp: parse_commands_def filter_empty_conv)
qed

text \<open>
  Claim C7, as the code has it. \<open>startCommandQueue\<close> parses the text into trimmed non-empty
  lines and is a no-op when there is none. Otherwise it installs the commands, empties the
  result list, puts the index at 0, zeroes the session-total token counter and marks the queue
  as processing, then hands over to \<open>processNextCommand\<close>. The paused flag, the stop-request
  flag and the per-command token counter are left as they were; when the queue is paused
  nothing starts, otherwise the execution function runs on the first command.
\<close>

theorem startCommandQueue_resets:
  "let commands = parse_commands commandQueueText; q0 = start_reset commands q in
   (\<forall>c \<in> set commands. c \<noteq> [] \<and> trim c = c) \<and>
   (commands = [] \<longrightarrow> startCommandQueue commandQueueText executeCommandFn q = q) \<and>
   (commands \<noteq> [] \<longrightarrow>
      startCommandQueue commandQueueText executeCommandFn q = processNextCommand executeCommandFn q0 \<and>
      currentCommands q0 = commands \<and> currentCommandIndex q0 = 0 \<and> commandResults q0 = [] \<and>
      totalTokenUsage q0 = zero_usage \<and> isProcessingCommands q0 \<and>
      isPaused q0 = isPaused q \<and> shouldStopCurrent q0 = shouldStopCurrent q \<and>
      currentTokenUsage q0 = currentTokenUsage q \<and>
      (isPaused q \<longrightarrow> processNextCommand executeCommandFn q0 = q0) \<and>
      (\<not> isPaused q \<longrightarrow>
         (\<forall>q1. executeCommandFn (hd commands) q0 = (None, q1) \<longrightarrow>
               processNextCommand executeCommandFn q0 = q1)))"
proof -
  have a: "\<forall>c \<in> set (parse_commands commandQueueText). c \<noteq> [] \<and> trim c = c"
    using parse_commands_props by blast
  have b: "parse_commands commandQueueText = [] \<longrightarrow> startCommandQueue commandQueueText executeCommandFn q = q"
    by (simp add: startCommandQueue_def)
  have c: "parse_commands commandQueueText \<noteq> [] \<longrightarrow> startCommandQueue commandQueueText executeCommandFn q =
             processNextCommand executeCommandFn (start_reset (parse_commands commandQueueText) q)"
    using parse_commands_blank[of commandQueueText] by (auto simp: startCommandQueue_def)
  have d: "parse_commands commandQueueText \<noteq> [] \<longrightarrow> \<not> isPaused q \<longrightarrow>
         (\<forall>q1. executeCommandFn (hd (parse_commands commandQueueText)) (start_reset (parse_commands commandQueueText) q) = (None, q1) \<longrightarrow>
               processNextCommand executeCommandFn (start_reset (parse_commands commandQueueText) q) = q1)"
    by (cases "parse_commands commandQueueText") (simp_all add: processNextCommand_def start_reset_def)
  have e: "isPaused q \<longrightarrow> processNextCommand executeCommandFn (start_reset (parse_commands commandQueueText) q)
            = start_reset (parse_commands commandQueueText) q"
    by (simp add: processNextCommand_def start_reset_def)
  show ?thesis
    unfolding Let_def using a b c d e by (simp add: start_reset_def)
qed

text \<open>
  Claim C7 as stated fails: a stop request and a per-command counter from before the start
  survive it, and so does the paused flag.
\<close>

theorem startCommandQueue_counterexample:
  "shouldStopCurrent (startCommandQueue ''get the title'' noop_fn sample_queue) \<and>
   currentTokenUsage (startCommandQueue ''get the title'' noop_fn sample_queue)
     = \<lparr>tok_input = 5, tok_output = 5, tok_total = 10\<rparr> \<and>
   isPaused (startCommandQueue ''get the title'' noop_fn (sample_queue\<lparr>isPaused := True\<rparr>))"
proof -
  have p: "parse_commands ''get the title'' = [''get the title'']" by code_simp
  have t: "trim ''get the title'' = ''get the title''" by code_simp
  show ?thesis
    by (simp add: startCommandQueue_def p t processNextCommand_def start_reset_def
        sample_queue_def noop_fn_def)
qed

text \<open>Two command lines between blank lines, and an all-blank text.\<close>

theorem startCommandQueue_resets_witness:
  "parse_commands sample_text = [''go to a.test'', ''get the title''] \<and>
   startCommandQueue sample_text noop_fn sample_queue
     = start_reset [''go to a.test'', ''get the title''] sample_queue \<and>
   commandResults (startCommandQueue sample_text noop_fn sample_queue) = [] \<and>
   currentCommandIndex (startCommandQueue sample_text noop_fn sample_queue) = 0 \<and>
   totalTokenUsage (startCommandQueue sample_text noop_fn sample_queue) = zero_usage \<and>
   startCommandQueue ''  '' noop_fn sample_queue = sample_queue"
proof -
  have p: "parse_commands sample_text = [''go to a.test'', ''get the title'']" by code_simp
  have b: "parse_commands ''  '' = []" by code_simp
  have n: "\<not> isPaused sample_queue" by (simp add: sample_queue_def)
  have f: "noop_fn (hd [''go to a.test'', ''get the title''])
             (start_reset [''go to a.test'', ''get the title''] sample_queue)
           = (None, start_reset [''go to a.test'', ''get the title''] sample_queue)"
    by (simp add: noop_fn_def)
  have s: "startCommandQueue sample_text noop_fn sample_queue
     = start_reset [''go to a.test'', ''get the title''] sample_queue"
    using startCommandQueue_resets[of sample_text sample_queue noop_fn] n f
    by (simp add: Let_def p)
  have e: "startCommandQueue ''  '' noop_fn sample_queue = sample_queue"
    using startCommandQueue_resets[of "''  ''" sample_queue noop_fn] by (simp add: Let_def b)
  show ?thesis using p s e by (simp add: start_reset_def)
qed

text \<open>
  Claim C4, as the code has it. When the outcome of a retry is recorded against the result in
  the retrying state: if both the old and the new data are present, two arrays concatenate in
  original-then-retry order, an array absorbs the other value (original data first), and two
  non-array values become the 2-element array of original and retry; if the retry brings no
  data (null or undefined) the old data stays, and if only the retry has data it replaces the
  old. Token counters add componentwise, histories concatenate, status and error are those of
  the retry, the other results and the index are untouched and no next command is scheduled.
\<close>

theorem addCommandResult_retry_merge:
  assumes "findIndex (\<lambda>r. command r = command result \<and> status r = Retrying) (commandResults q)
             = Some i"
  shows "let old = commandResults q ! i; q' = addCommandResult result q;
             new = commandResults q' ! i in
     i < length (commandResults q) \<and> command old = command result \<and> status old = Retrying \<and>
     (\<forall>xs ys. data old = Some (JArr xs) \<and> data result = Some (JArr ys) \<longrightarrow>
        data new = Some (JArr (xs @ ys))) \<and>
     (\<forall>xs y. data old = Some (JArr xs) \<and> data result = Some y \<and> hasData (Some y) \<and>
        \<not> isArray (Some y) \<longrightarrow> data new = Some (JArr (xs @ [y]))) \<and>
     (\<forall>x ys. data old = Some x \<and> hasData (Some x) \<and> \<not> isArray (Some x) \<and>
        data result = Some (JArr ys) \<longrightarrow> data new = Some (JArr (x # ys))) \<and>
     (\<forall>x y. data old = Some x \<and> hasData (Some x) \<and> \<not> isArray (Some x) \<and>
        data result = Some y \<and> hasData (Some y) \<and> \<not> isArray (Some y) \<longrightarrow>
        data new = Some (JArr [x, y])) \<and>
     (\<not> hasData (data result) \<longrightarrow> data new = data old) \<and>
     (hasData (data result) \<and> \<not> hasData (data old) \<longrightarrow> data new = data result) \<and>
     tok_input (tokenUsage new) = tok_input (tokenUsage old) + tok_input (tokenUsage result) \<and>
     tok_output (tokenUsage new) = tok_output (tokenUsage old) + tok_output (tokenUsage result) \<and>
     tok_total (tokenUsage new) = tok_total (tokenUsage old) + tok_total (tokenUsage result) \<and>
     commandHistory new = commandHistory old @ commandHistory result \<and>
     status new = status result \<and> error new = error result \<and> command new = command old \<and>
     length (commandResults q') = length (commandResults q) \<and>
     (\<forall>j < length (commandResults q). j \<noteq> i \<longrightarrow> commandResults q' ! j = commandResults q ! j) \<and>
     currentCommandIndex q' = currentCommandIndex q \<and> timers q' = timers q"
proof -
  let ?old = "commandResults q ! i"
  from findIndex_Some[OF assms]
  have i: "i < length (commandResults q)" and c: "command ?old = command result"
    and s: "status ?old = Retrying" by auto
  have q': "addCommandResult result q =
     q\<lparr>commandResults := (commandResults q)[i := merge_result ?old result]\<rparr>"
    using assms by (simp add: addCommandResult_def)
  have new: "commandResults (addCommandResult result q) ! i = merge_result ?old result"
    using i by (simp add: q')
  have d: "data (merge_result ?old result) = merge_data (data ?old) (data result)"
    by (simp add: merge_result_def)
  show ?thesis
    unfolding Let_def new d
    using i c s by (auto simp: merge_data_cases q' merge_result_def add_usage_def)
qed

text \<open>
  Claim C4 as stated fails where a side has no data: a failed result carries the data
  \<open>null\<close>, which is not an array, and the retry's string replaces it instead of forming
  the pair of both.
\<close>

theorem addCommandResult_retry_merge_counterexample:
  "status (commandResults sample_retrying_queue ! 1) = Retrying \<and>
   data (commandResults sample_retrying_queue ! 1) = Some JNull \<and>
   data sample_retry_outcome = Some (JStr ''Example Title'') \<and>
   data (commandResults (addCommandResult sample_retry_outcome sample_retrying_queue) ! 1)
     = Some (JStr ''Example Title'') \<and>
   data (commandResults (addCommandResult sample_retry_outcome sample_retrying_queue) ! 1)
     \<noteq> Some (JArr [JNull, JStr ''Example Title''])"
  by (simp add: addCommandResult_def sample_retrying_queue_def sample_queue_def
      sample_retry_outcome_def sample_failed_result_def sample_done_result_def
      merge_result_def merge_data_def)

text \<open>The retry of the failed second command of the sample queue.\<close>

theorem addCommandResult_retry_merge_witness:
  "findIndex (\<lambda>r. command r = command sample_retry_outcome \<and> status r = Retrying)
     (commandResults sample_retrying_queue) = Some 1 \<and>
   commandResults (addCommandResult sample_retry_outcome sample_retrying_queue) ! 1 =
     \<lparr>command = ''get the title'', status = Completed, error = None,
      data = Some (JStr ''Example Title''), commandHistory = [],
      tokenUsage = \<lparr>tok_input = 35, tok_output = 17, tok_total = 52\<rparr>\<rparr> \<and>
   currentCommandIndex (addCommandResult sample_retry_outcome sample_retrying_queue) = 2"
proof -
  have f: "findIndex (\<lambda>r. command r = command sample_retry_outcome \<and> status r = Retrying)
     (commandResults sample_retrying_queue) = Some 1"
    by (simp add: sample_retrying_queue_def sample_queue_def
      sample_retry_outcome_def sample_failed_result_def sample_done_result_def)
  have v: "commandResults sample_retrying_queue ! 1
       = sample_failed_result\<lparr>status := Retrying, error := None\<rparr>"
    by (simp add: sample_retrying_queue_def)
  have h: "hasData (data sample_retry_outcome)"
    "\<not> hasData (data (sample_failed_result\<lparr>status := Retrying, error := None\<rparr>))"
    by (simp_all add: sample_retry_outcome_def sample_failed_result_def)
  have ix: "currentCommandIndex sample_retrying_queue = 2"
    by (simp add: sample_retrying_queue_def sample_queue_def)
  note t = addCommandResult_retry_merge[OF f, unfolded Let_def v]
  have "data (commandResults (addCommandResult sample_retry_outcome sample_retrying_queue) ! 1)
          = data sample_retry_outcome" using t h by blast
  moreover have "command (commandResults (addCommandResult sample_retry_outcome sample_retrying_queue) ! 1)
          = ''get the title''" using t by (simp add: sample_failed_result_def)
  moreover have "status (commandResults (addCommandResult sample_retry_outcome sample_retrying_queue) ! 1)
          = Completed" using t by (simp add: sample_retry_outcome_def)
  moreover have "error (commandResults (addCommandResult sample_retry_outcome sample_retrying_queue) ! 1)
          = None" using t by (simp add: sample_retry_outcome_def)
  moreover have "commandHistory (commandResults (addCommandResult sample_retry_outcome sample_retrying_queue) ! 1)
          = []" using t by (simp add: sample_retry_outcome_def sample_failed_result_def)
  moreover have "tokenUsage (commandResults (addCommandResult sample_retry_outcome sample_retrying_queue) ! 1)
          = \<lparr>tok_input = 35, tok_output = 17, tok_total = 52\<rparr>"
    using t by (simp add: sample_retry_outcome_def sample_failed_result_def)
  moreover have "currentCommandIndex (addCommandResult sample_retry_outcome sample_retrying_queue) = 2"
    using t ix by simp
  ultimately show ?thesis using f by (simp add: sample_retry_outcome_def)
qed

section \<open>Properties of the executor and the tools\<close>

lemma addCommandResult_keeps [simp]:
  "shouldStopCurrent (addCommandResult r q) = shouldStopCurrent q"
  "isPaused (addCommandResult r q) = isPaused q"
  "currentTokenUsage (addCommandResult r q) = currentTokenUsage q"
  "totalTokenUsage (addCommandResult r q) = totalTokenUsage q"
  by (simp_all add: addCommandResult_def split: option.splits)

lemma report_fields [simp]:
  "commandRecord (report p st err d s) = commandRecord s"
  "world (report p st err d s) = world s"
  "shouldStopCurrent (queue_state (report p st err d s)) = shouldStopCurrent (queue_state s)"
  "currentTokenUsage (queue_state (report p st err d s)) = currentTokenUsage (queue_state s)"
  "totalTokenUsage (queue_state (report p st err d s)) = totalTokenUsage (queue_state s)"
  by (simp_all add: report_def)

lemma stop_attempt_fields:
  "world (stop_attempt p s) = world s"
  "toolResults (commandRecord (stop_attempt p s)) = toolResults (commandRecord s)"
  "toolCalls (commandRecord (stop_attempt p s)) = toolCalls (commandRecord s)"
  "rec_status (commandRecord (stop_attempt p s)) = Stopped"
  "rec_error (commandRecord (stop_attempt p s)) = Some ''Command stopped by user''"
  "\<not> shouldStopCurrent (queue_state (stop_attempt p s))"
  by (simp_all add: stop_attempt_def resetStopFlag_def)

lemma stop_attempt_queue:
  "queue_state (stop_attempt p s) =
     addCommandResult
       \<lparr>command = p_command p, status = Stopped, error = Some ''Command stopped by user'',
        data = Some JNull,
        commandHistory = priorHistory p @ [commandRecord (stop_attempt p s)],
        tokenUsage = currentTokenUsage (queue_state s)\<rparr>
       (resetStopFlag (queue_state s))"
  by (simp add: stop_attempt_def report_def resetStopFlag_def)

lemma fail_attempt_fields:
  "world (fail_attempt p m s) = world s"
  "toolResults (commandRecord (fail_attempt p m s)) = toolResults (commandRecord s)"
  "rec_status (commandRecord (fail_attempt p m s)) = Failed"
  "rec_error (commandRecord (fail_attempt p m s)) = Some m"
  "currentTokenUsage (queue_state (fail_attempt p m s)) = currentTokenUsage (queue_state s)"
  "totalTokenUsage (queue_state (fail_attempt p m s)) = totalTokenUsage (queue_state s)"
  by (simp_all add: fail_attempt_def)

lemma fail_attempt_queue:
  "queue_state (fail_attempt p m s) =
     addCommandResult
       \<lparr>command = p_command p, status = Failed, error = Some m, data = Some JNull,
        commandHistory = priorHistory p @ [commandRecord (fail_attempt p m s)],
        tokenUsage = currentTokenUsage (queue_state s)\<rparr>
       (queue_state s)"
  by (simp add: fail_attempt_def report_def)

lemma run_tool_record:
  "run_tool env t args s = (out, s') \<Longrightarrow> commandRecord s' = commandRecord s"
  by (cases t) (auto simp: run_tool_def resumed_def split: prod.splits)

lemma dispatch_call_Inr:
  assumes "dispatch_call env p c s = Inr (s', tr)"
  shows "toolResults (commandRecord s') = toolResults (commandRecord s) @ [tr] \<and>
         tool_call_id tr = call_id c"
  using assms
  by (auto simp: dispatch_call_def push_result_def Let_def
      split: sum.splits option.splits prod.splits if_splits json.splits
      dest!: run_tool_record)

lemma dispatch_calls_Inr:
  "dispatch_calls env p cs s acc = Inr (s', acc') \<Longrightarrow>
     \<exists>new. acc' = acc @ new \<and> length new = length cs \<and>
           map tool_call_id new = map call_id cs \<and>
           toolResults (commandRecord s') = toolResults (commandRecord s) @ new"
proof (induction cs arbitrary: s acc)
  case Nil
  then show ?case by simp
next
  case (Cons c cs)
  from Cons.prems obtain s1 tr where
    c: "dispatch_call env p c s = Inr (s1, tr)" and
    r: "dispatch_calls env p cs s1 (acc @ [tr]) = Inr (s', acc')"
    by (auto split: if_splits sum.splits)
  from Cons.IH[OF r] obtain new where
    n: "acc' = (acc @ [tr]) @ new" "length new = length cs"
       "map tool_call_id new = map call_id cs"
       "toolResults (commandRecord s') = toolResults (commandRecord s1) @ new"
    by blast
  from dispatch_call_Inr[OF c] n show ?case
    by (intro exI[of _ "tr # new"]) simp
qed

lemma dispatch_calls_append:
  "dispatch_calls env p (xs @ ys) s acc =
     (case dispatch_calls env p xs s acc of
        Inl finished \<Rightarrow> Inl finished
      | Inr (s', acc') \<Rightarrow> dispatch_calls env p ys s' acc')"
  by (induction xs arbitrary: s acc) (auto split: sum.splits)

lemma exec_loop_enter:
  assumes "tool_calls msg \<noteq> []" "int it < min (maxToolCalls p) 50"
    "\<not> shouldStopCurrent (queue_state s)"
    "int (tok_total (currentTokenUsage (queue_state s))) < maxTokens p"
    "record_tool_calls env (tool_calls msg) (commandRecord s) = Inr r"
    "dispatch_calls env p (tool_calls msg) (s\<lparr>commandRecord := r\<rparr>) [] = Inl finished"
  shows "exec_loop env p it msg msgs s = finished"
  using assms by (subst exec_loop.simps) simp

text \<open>
  Claim C3, as the code has it. In a batch of \<open>K\<close> tool calls, let the first \<open>j < K\<close> calls run through
  (no stop observed before them, no completion signal among them) and let the stop flag be
  set when the poll point of call \<open>j + 1\<close> is reached. Then the dispatch returns at that
  poll: the attempt ends as stopped, the batch has recorded exactly \<open>j\<close> tool results (those
  of the first \<open>j\<close> calls, after the results of earlier round-trips), the world is as the
  first \<open>j\<close> calls left it (the later calls are not dispatched), the flag is cleared, and
  the queue receives a stopped result. The last part says that this is the outcome of the
  whole attempt when the loop runs this batch.
\<close>

theorem stop_during_batch:
  assumes "j < length calls"
    and "dispatch_calls env p (take j calls) s [] = Inr (s', results)"
    and "shouldStopCurrent (queue_state s')"
  shows "dispatch_calls env p calls s [] = Inl (stop_attempt p s') \<and>
         length results = j \<and>
         map tool_call_id results = map call_id (take j calls) \<and>
         toolResults (commandRecord (stop_attempt p s')) = toolResults (commandRecord s) @ results \<and>
         rec_status (commandRecord (stop_attempt p s')) = Stopped \<and>
         world (stop_attempt p s') = world s' \<and>
         \<not> shouldStopCurrent (queue_state (stop_attempt p s')) \<and>
         queue_state (stop_attempt p s') =
           addCommandResult
             \<lparr>command = p_command p, status = Stopped,
              error = Some ''Command stopped by user'', data = Some JNull,
              commandHistory = priorHistory p @ [commandRecord (stop_attempt p s')],
              tokenUsage = currentTokenUsage (queue_state s')\<rparr>
             (resetStopFlag (queue_state s')) \<and>
         (\<forall>it msg msgs s0 r.
            tool_calls msg = calls \<and> int it < min (maxToolCalls p) 50 \<and>
            \<not> shouldStopCurrent (queue_state s0) \<and>
            int (tok_total (currentTokenUsage (queue_state s0))) < maxTokens p \<and>
            record_tool_calls env calls (commandRecord s0) = Inr r \<and>
            s = s0\<lparr>commandRecord := r\<rparr> \<longrightarrow>
            exec_loop env p it msg msgs s0 = stop_attempt p s')"
proof -
  have split: "calls = take j calls @ (calls ! j # drop (Suc j) calls)"
    using assms(1) by (simp add: Cons_nth_drop_Suc)
  have "dispatch_calls env p (take j calls @ (calls ! j # drop (Suc j) calls)) s []
          = Inl (stop_attempt p s')"
    using assms(2,3) by (simp add: dispatch_calls_append)
  with split have a: "dispatch_calls env p calls s [] = Inl (stop_attempt p s')" by simp
  from dispatch_calls_Inr[OF assms(2)] assms(1)
  have b: "length results = j" "map tool_call_id results = map call_id (take j calls)"
    "toolResults (commandRecord s') = toolResults (commandRecord s) @ results"
    by auto
  have c: "\<forall>it msg msgs s0 r.
            tool_calls msg = calls \<and> int it < min (maxToolCalls p) 50 \<and>
            \<not> shouldStopCurrent (queue_state s0) \<and>
            int (tok_total (currentTokenUsage (queue_state s0))) < maxTokens p \<and>
            record_tool_calls env calls (commandRecord s0) = Inr r \<and>
            s = s0\<lparr>commandRecord := r\<rparr> \<longrightarrow>
            exec_loop env p it msg msgs s0 = stop_attempt p s'"
  proof (intro allI impI)
    fix it and msg :: assistant_message and msgs and s0 :: "'a exec_state" and r
    assume h: "tool_calls msg = calls \<and> int it < min (maxToolCalls p) 50 \<and>
            \<not> shouldStopCurrent (queue_state s0) \<and>
            int (tok_total (currentTokenUsage (queue_state s0))) < maxTokens p \<and>
            record_tool_calls env calls (commandRecord s0) = Inr r \<and>
            s = s0\<lparr>commandRecord := r\<rparr>"
    have ne: "tool_calls msg \<noteq> []" using h assms(1) by auto
    show "exec_loop env p it msg msgs s0 = stop_attempt p s'"
      by (rule exec_loop_enter[OF ne, of it p s0 env r]) (use h a in auto)
  qed
  show ?thesis
    using a b c by (simp add: stop_attempt_fields stop_attempt_queue[symmetric])
qed

text \<open>
  A batch of three page actions with the stop requested during the second one: two results,
  the third action never reaches the page.
\<close>

theorem stop_during_batch_witness:
  "dispatch_calls stop_env sample_params (take 2 three_calls) batch_state []
     = Inr (third_poll_state, two_results) \<and>
   shouldStopCurrent (queue_state third_poll_state) \<and>
   dispatch_calls stop_env sample_params three_calls batch_state []
     = Inl (stop_attempt sample_params third_poll_state) \<and>
   executeCommand stop_env sample_params idle_queue []
     = stop_attempt sample_params third_poll_state \<and>
   toolResults (commandRecord (stop_attempt sample_params third_poll_state)) = two_results \<and>
   world (stop_attempt sample_params third_poll_state) = [''chat'', ''GoBack'', ''ClickElement''] \<and>
   \<not> shouldStopCurrent (queue_state (stop_attempt sample_params third_poll_state))"
proof -
  have j: "2 < length three_calls" by (simp add: three_calls_def)
  have d: "dispatch_calls stop_env sample_params (take 2 three_calls) batch_state []
     = Inr (third_poll_state, two_results)" by code_simp
  have f: "shouldStopCurrent (queue_state third_poll_state)"
    by (simp add: third_poll_state_def)
  have run: "executeCommand stop_env sample_params idle_queue []
     = stop_attempt sample_params third_poll_state" by code_simp
  note t = stop_during_batch[OF j d f]
  have all: "dispatch_calls stop_env sample_params three_calls batch_state []
     = Inl (stop_attempt sample_params third_poll_state)"
    using t by (rule conjunct1)
  have res: "toolResults (commandRecord (stop_attempt sample_params third_poll_state)) = two_results"
    using t by (simp add: batch_state_def)
  have w: "world (stop_attempt sample_params third_poll_state) = [''chat'', ''GoBack'', ''ClickElement'']"
    using t by (simp add: third_poll_state_def)
  have c: "\<not> shouldStopCurrent (queue_state (stop_attempt sample_params third_poll_state))"
    using t by blast
  show ?thesis using d f all run res w c by blast
qed

text \<open>
  Claim C3 as stated fails after the first batch: the record keeps the results of the earlier
  round-trips, so a stop at the second call of a second batch (\<open>j = 1\<close>) leaves two tool
  results in \<open>toolResults\<close>, not one.
\<close>

theorem stop_during_batch_counterexample:
  "length second_batch = 2 \<and>
   dispatch_calls late_stop_env sample_params (take 1 second_batch) second_batch_state []
     = Inr (second_poll_state, [\<lparr>tool_call_id = ''call_2'', content = ''ClickElement done''\<rparr>]) \<and>
   shouldStopCurrent (queue_state second_poll_state) \<and>
   executeCommand late_stop_env sample_params idle_queue []
     = stop_attempt sample_params second_poll_state \<and>
   rec_status (commandRecord (executeCommand late_stop_env sample_params idle_queue [])) = Stopped \<and>
   toolResults (commandRecord (executeCommand late_stop_env sample_params idle_queue []))
     = [\<lparr>tool_call_id = ''call_1'', content = ''GoBack done''\<rparr>,
        \<lparr>tool_call_id = ''call_2'', content = ''ClickElement done''\<rparr>] \<and>
   length (toolResults (commandRecord (executeCommand late_stop_env sample_params idle_queue [])))
     \<noteq> 1"
  by code_simp

lemma str_includes_prefix: "str_includes (needle @ rest) needle"
proof (cases "needle @ rest")
  case Nil
  then show ?thesis by simp
next
  case (Cons a list)
  have "take (length needle) (needle @ rest) = needle" by simp
  then have "take (length needle) (a # list) = needle" by (simp only: Cons)
  then have "str_includes (a # list) needle" by simp
  then show ?thesis by (simp only: Cons)
qed

lemma finish_without_done_fields:
  "world (finish_without_done p msg s) = world s"
  "rec_status (commandRecord (finish_without_done p msg s)) = Completed"
  "rec_error (commandRecord (finish_without_done p msg s)) = rec_error (commandRecord s)"
  "toolResults (commandRecord (finish_without_done p msg s)) = toolResults (commandRecord s)"
  "currentTokenUsage (queue_state (finish_without_done p msg s)) = currentTokenUsage (queue_state s)"
  "totalTokenUsage (queue_state (finish_without_done p msg s)) = totalTokenUsage (queue_state s)"
  by (simp_all add: finish_without_done_def Let_def)

lemma finish_without_done_queue:
  "queue_state (finish_without_done p msg s) =
     addCommandResult
       \<lparr>command = p_command p, status = Completed, error = None,
        data = Some (JStr (case msg_content msg of
                             None \<Rightarrow> ''Command completed''
                           | Some c \<Rightarrow> if c = [] then ''Command completed'' else c)),
        commandHistory = priorHistory p @ [commandRecord (finish_without_done p msg s)],
        tokenUsage = currentTokenUsage (queue_state s)\<rparr>
       (queue_state s)"
  by (simp add: finish_without_done_def report_def Let_def split: option.splits)

lemma stop_attempt_usage:
  "currentTokenUsage (queue_state (stop_attempt p s)) = currentTokenUsage (queue_state s)"
  "totalTokenUsage (queue_state (stop_attempt p s)) = totalTokenUsage (queue_state s)"
  by (simp_all add: stop_attempt_def resetStopFlag_def)

lemma exec_loop_exit:
  "\<not> (tool_calls msg \<noteq> [] \<and> int it < min (maxToolCalls p) 50) \<Longrightarrow>
     exec_loop env p it msg msgs s = finish_without_done p msg s"
  by (subst exec_loop.simps) (erule if_not_P)

lemma exec_loop_stop:
  "tool_calls msg \<noteq> [] \<Longrightarrow> int it < min (maxToolCalls p) 50 \<Longrightarrow>
   shouldStopCurrent (queue_state s) \<Longrightarrow>
     exec_loop env p it msg msgs s = stop_attempt p s"
  by (subst exec_loop.simps) simp

lemma exec_loop_token_limit:
  "tool_calls msg \<noteq> [] \<Longrightarrow> int it < min (maxToolCalls p) 50 \<Longrightarrow>
   \<not> shouldStopCurrent (queue_state s) \<Longrightarrow>
   maxTokens p \<le> int (tok_total (currentTokenUsage (queue_state s))) \<Longrightarrow>
     exec_loop env p it msg msgs s =
       fail_attempt p (token_limit_message (maxTokens p)
                         (tok_total (currentTokenUsage (queue_state s)))) s"
  by (subst exec_loop.simps) simp

lemma add_usage_zero [simp]: "add_usage a zero_usage = a" "add_usage zero_usage a = a"
  by (simp_all add: add_usage_def zero_usage_def)

lemma track_usage_adds:
  "currentTokenUsage (queue_state (track_usage response s))
     = add_usage (currentTokenUsage (queue_state s)) (tokens_of response)"
  "totalTokenUsage (queue_state (track_usage response s))
     = add_usage (totalTokenUsage (queue_state s)) (tokens_of response)"
  "rec_tokenUsage (commandRecord (track_usage response s))
     = add_usage (rec_tokenUsage (commandRecord s)) (tokens_of response)"
  "world (track_usage response s) = world s"
  by (simp_all add: track_usage_def tokens_of_def updateTokenUsage_def Let_def split: option.splits)

lemma resumed_usage:
  "currentTokenUsage (queue_state (resumed env w s)) = currentTokenUsage (queue_state s)"
  "world (resumed env w s) = w"
  by (simp_all add: resumed_def stopCurrentCommand_def)

lemma run_tool_usage:
  "run_tool env t args s = (out, s') \<Longrightarrow>
     currentTokenUsage (queue_state s') = currentTokenUsage (queue_state s)"
  by (cases t) (auto simp: run_tool_def resumed_usage split: prod.splits)

lemma dispatch_call_usage:
  assumes "dispatch_call env p c s = Inr (s', tr)"
  shows "currentTokenUsage (queue_state s') = currentTokenUsage (queue_state s)"
  using assms
  by (auto simp: dispatch_call_def push_result_def Let_def
      split: sum.splits option.splits prod.splits if_splits json.splits
      dest!: run_tool_usage)

lemma dispatch_calls_usage:
  "dispatch_calls env p cs s acc = Inr (s', acc') \<Longrightarrow>
     currentTokenUsage (queue_state s') = currentTokenUsage (queue_state s)"
proof (induction cs arbitrary: s acc)
  case Nil
  then show ?case by simp
next
  case (Cons c cs)
  from Cons.prems obtain s1 tr where
    c: "dispatch_call env p c s = Inr (s1, tr)" and
    r: "dispatch_calls env p cs s1 (acc @ [tr]) = Inr (s', acc')"
    by (auto split: if_splits sum.splits)
  from Cons.IH[OF r] dispatch_call_usage[OF c] show ?case by simp
qed

lemma exec_loop_next:
  assumes "tool_calls msg \<noteq> []" "int it < min (maxToolCalls p) 50"
    "\<not> shouldStopCurrent (queue_state s)"
    "int (tok_total (currentTokenUsage (queue_state s))) < maxTokens p"
    "record_tool_calls env (tool_calls msg) (commandRecord s) = Inr r"
    "dispatch_calls env p (tool_calls msg) (s\<lparr>commandRecord := r\<rparr>) [] = Inr (s1, results)"
    "chat_completions_create env
       (msgs @ [AssistantMessage (msg_content msg) (tool_calls msg)] @ map ToolMessage results)
       (world s1) = (Inr response, w)"
  shows "exec_loop env p it msg msgs s =
           exec_loop env p (it + 1) (resp_message response)
             (msgs @ [AssistantMessage (msg_content msg) (tool_calls msg)] @ map ToolMessage results)
             (track_usage response (resumed env w s1))"
  using assms by (subst exec_loop.simps) (simp add: Let_def)

lemma executeCommand_enter:
  assumes "apiKey p \<noteq> []"
    "chat_completions_create env (initialMessages p) w = (Inr response, w1)"
  shows "executeCommand env p q w =
     exec_loop env p 0 (resp_message response) (initialMessages p)
       (track_usage response (resumed env w1
          \<lparr>queue_state = resetCurrentTokenUsage q,
           commandRecord = \<lparr>rec_command = p_command p, rec_status = Executing,
              toolCalls = [], toolResults = [], responses = [],
              rec_tokenUsage = zero_usage, rec_error = None, completedAt = False\<rparr>,
           world = w\<rparr>))"
  using assms by (simp add: executeCommand_def Let_def)

text \<open>
  Claim C5. The counter that is compared with the ceiling is the cumulative usage of the
  attempt itself: \<open>executeCommand\<close> enters the loop with the counter at the tokens of its
  first response, whatever an earlier command left in it, and every pass of the loop that
  issues a further round-trip adds the tokens of that response and nothing else. Every
  round-trip after the first is issued from the body of the loop, behind the comparison.
  When the total has met or exceeded the ceiling at the head of the loop, nothing more is
  spent whatever the other conditions are: the world is left as it is (no round-trip, no
  tool) and both counters keep their values. When the comparison is reached (the model asked
  for tool calls, the iteration cap is not reached and no stop is pending), the attempt ends
  as failed with the message \<open>Token limit reached (..). Current usage: .. tokens\<close> and
  data \<open>null\<close>.
\<close>

theorem token_ceiling_preemptive:
  "(apiKey p \<noteq> [] \<and>
    chat_completions_create env (initialMessages p) w = (Inr first, w1) \<longrightarrow>
      (\<exists>s0. executeCommand env p q w =
               exec_loop env p 0 (resp_message first) (initialMessages p) s0 \<and>
            currentTokenUsage (queue_state s0) = tokens_of first \<and>
            world s0 = w1)) \<and>
   (\<forall>it msg msgs s r s1 results next w2.
      tool_calls msg \<noteq> [] \<and> int it < min (maxToolCalls p) 50 \<and>
      \<not> shouldStopCurrent (queue_state s) \<and>
      int (tok_total (currentTokenUsage (queue_state s))) < maxTokens p \<and>
      record_tool_calls env (tool_calls msg) (commandRecord s) = Inr r \<and>
      dispatch_calls env p (tool_calls msg) (s\<lparr>commandRecord := r\<rparr>) [] = Inr (s1, results) \<and>
      chat_completions_create env
        (msgs @ [AssistantMessage (msg_content msg) (tool_calls msg)] @ map ToolMessage results)
        (world s1) = (Inr next, w2) \<longrightarrow>
      (\<exists>s2. exec_loop env p it msg msgs s =
               exec_loop env p (it + 1) (resp_message next)
                 (msgs @ [AssistantMessage (msg_content msg) (tool_calls msg)] @
                  map ToolMessage results) s2 \<and>
            currentTokenUsage (queue_state s2)
              = add_usage (currentTokenUsage (queue_state s)) (tokens_of next) \<and>
            world s2 = w2)) \<and>
   (\<forall>it msg msgs s.
      maxTokens p \<le> int (tok_total (currentTokenUsage (queue_state s))) \<longrightarrow>
        world (exec_loop env p it msg msgs s) = world s \<and>
        currentTokenUsage (queue_state (exec_loop env p it msg msgs s))
          = currentTokenUsage (queue_state s) \<and>
        totalTokenUsage (queue_state (exec_loop env p it msg msgs s))
          = totalTokenUsage (queue_state s) \<and>
        (tool_calls msg \<noteq> [] \<and> int it < min (maxToolCalls p) 50 \<and>
         \<not> shouldStopCurrent (queue_state s) \<longrightarrow>
           (let m = token_limit_message (maxTokens p) (tok_total (currentTokenUsage (queue_state s)));
                final = exec_loop env p it msg msgs s
            in final = fail_attempt p m s \<and>
               str_includes m ''Token limit reached'' \<and>
               rec_status (commandRecord final) = Failed \<and>
               rec_error (commandRecord final) = Some m \<and>
               queue_state final =
                 addCommandResult
                   \<lparr>command = p_command p, status = Failed, error = Some m, data = Some JNull,
                    commandHistory = priorHistory p @ [commandRecord final],
                    tokenUsage = currentTokenUsage (queue_state s)\<rparr>
                   (queue_state s))))"
proof (intro conjI allI impI)
  assume h: "apiKey p \<noteq> [] \<and>
    chat_completions_create env (initialMessages p) w = (Inr first, w1)"
  let ?s0 = "track_usage first (resumed env w1
          \<lparr>queue_state = resetCurrentTokenUsage q,
           commandRecord = \<lparr>rec_command = p_command p, rec_status = Executing,
              toolCalls = [], toolResults = [], responses = [],
              rec_tokenUsage = zero_usage, rec_error = None, completedAt = False\<rparr>,
           world = w\<rparr>)"
  have a: "executeCommand env p q w =
             exec_loop env p 0 (resp_message first) (initialMessages p) ?s0"
    using h executeCommand_enter[of p env w first w1 q] by blast
  have b: "currentTokenUsage (queue_state ?s0) = tokens_of first"
    by (simp add: track_usage_adds resumed_usage resetCurrentTokenUsage_def)
  have c: "world ?s0 = w1" by (simp add: track_usage_adds resumed_usage)
  show "\<exists>s0. executeCommand env p q w =
               exec_loop env p 0 (resp_message first) (initialMessages p) s0 \<and>
            currentTokenUsage (queue_state s0) = tokens_of first \<and> world s0 = w1"
    using a b c by blast
next
  fix it and msg :: assistant_message and msgs and s :: "'a exec_state"
    and r s1 results "next" w2
  assume h: "tool_calls msg \<noteq> [] \<and> int it < min (maxToolCalls p) 50 \<and>
      \<not> shouldStopCurrent (queue_state s) \<and>
      int (tok_total (currentTokenUsage (queue_state s))) < maxTokens p \<and>
      record_tool_calls env (tool_calls msg) (commandRecord s) = Inr r \<and>
      dispatch_calls env p (tool_calls msg) (s\<lparr>commandRecord := r\<rparr>) [] = Inr (s1, results) \<and>
      chat_completions_create env
        (msgs @ [AssistantMessage (msg_content msg) (tool_calls msg)] @ map ToolMessage results)
        (world s1) = (Inr next, w2)"
  let ?msgs = "msgs @ [AssistantMessage (msg_content msg) (tool_calls msg)] @
                  map ToolMessage results"
  let ?s2 = "track_usage next (resumed env w2 s1)"
  have a: "exec_loop env p it msg msgs s =
             exec_loop env p (it + 1) (resp_message next) ?msgs ?s2"
    using h exec_loop_next[of msg it p s env r s1 results msgs "next" w2] by blast
  have "currentTokenUsage (queue_state s1) = currentTokenUsage (queue_state (s\<lparr>commandRecord := r\<rparr>))"
    using h dispatch_calls_usage by blast
  then have b: "currentTokenUsage (queue_state ?s2)
      = add_usage (currentTokenUsage (queue_state s)) (tokens_of next)"
    by (simp add: track_usage_adds resumed_usage)
  have c: "world ?s2 = w2" by (simp add: track_usage_adds resumed_usage)
  show "\<exists>s2. exec_loop env p it msg msgs s =
               exec_loop env p (it + 1) (resp_message next) ?msgs s2 \<and>
            currentTokenUsage (queue_state s2)
              = add_usage (currentTokenUsage (queue_state s)) (tokens_of next) \<and>
            world s2 = w2"
    using a b c by blast
next
  fix it and msg :: assistant_message and msgs and s :: "'a exec_state"
  assume h: "maxTokens p \<le> int (tok_total (currentTokenUsage (queue_state s)))"
  let ?m = "token_limit_message (maxTokens p) (tok_total (currentTokenUsage (queue_state s)))"
  have cases: "exec_loop env p it msg msgs s = stop_attempt p s \<or>
               exec_loop env p it msg msgs s = fail_attempt p ?m s \<or>
               exec_loop env p it msg msgs s = finish_without_done p msg s"
    using h exec_loop_exit[of msg it p env msgs s] exec_loop_stop[of msg it p s env msgs]
      exec_loop_token_limit[of msg it p s env msgs] by blast
  show "world (exec_loop env p it msg msgs s) = world s"
    using cases by (auto simp: stop_attempt_fields fail_attempt_fields finish_without_done_fields)
  show "currentTokenUsage (queue_state (exec_loop env p it msg msgs s))
           = currentTokenUsage (queue_state s)"
    using cases by (auto simp: stop_attempt_usage fail_attempt_fields finish_without_done_fields)
  show "totalTokenUsage (queue_state (exec_loop env p it msg msgs s))
           = totalTokenUsage (queue_state s)"
    using cases by (auto simp: stop_attempt_usage fail_attempt_fields finish_without_done_fields)
  assume g: "tool_calls msg \<noteq> [] \<and> int it < min (maxToolCalls p) 50 \<and>
         \<not> shouldStopCurrent (queue_state s)"
  have e: "?m = ''Token limit reached'' @ ('' ('' @ String_int (maxTokens p) @
         ''). Current usage: '' @
         String_nat (tok_total (currentTokenUsage (queue_state s))) @ '' tokens'')"
    by (simp add: token_limit_message_def)
  have i: "str_includes ?m ''Token limit reached''"
    by (subst e) (rule str_includes_prefix)
  have d: "exec_loop env p it msg msgs s = fail_attempt p ?m s"
    using h g exec_loop_token_limit[of msg it p s env msgs] by blast
  show "let m = ?m; final = exec_loop env p it msg msgs s
            in final = fail_attempt p m s \<and>
               str_includes m ''Token limit reached'' \<and>
               rec_status (commandRecord final) = Failed \<and>
               rec_error (commandRecord final) = Some m \<and>
               queue_state final =
                 addCommandResult
                   \<lparr>command = p_command p, status = Failed, error = Some m, data = Some JNull,
                    commandHistory = priorHistory p @ [commandRecord final],
                    tokenUsage = currentTokenUsage (queue_state s)\<rparr>
                   (queue_state s)"
    unfolding Let_def using d i
    by (simp add: fail_attempt_fields fail_attempt_queue[symmetric])
qed

text \<open>
  The scenario of the specification on a queue whose counter still shows 900 tokens of the
  command before: the ceiling of 1000 tokens is reached by the attempt's own two round-trips
  of 500, the third round-trip is not made, and the result carries 1000 tokens.
\<close>

theorem token_ceiling_preemptive_witness:
  "tok_total (currentTokenUsage stale_queue) = 900 \<and>
   (\<exists>s0. executeCommand budget_env budget_params stale_queue [] =
            exec_loop budget_env budget_params 0
              (resp_message (respond [page_call 1 ''GoBack''] 500))
              (initialMessages budget_params) s0 \<and>
         currentTokenUsage (queue_state s0) = five_hundred_tokens \<and> world s0 = [''chat'']) \<and>
   (\<exists>s2. exec_loop budget_env budget_params 0
            (resp_message (respond [page_call 1 ''GoBack''] 500))
            (initialMessages budget_params) stale_entry_state =
          exec_loop budget_env budget_params 1
            (resp_message (respond [page_call 1 ''GoBack''] 500))
            (initialMessages budget_params @
               [AssistantMessage None [page_call 1 ''GoBack''],
                ToolMessage \<lparr>tool_call_id = ''call_1'', content = ''GoBack done''\<rparr>]) s2 \<and>
         currentTokenUsage (queue_state s2) = thousand_tokens \<and>
         world s2 = [''chat'', ''GoBack'', ''chat'']) \<and>
   executeCommand budget_env budget_params stale_queue []
     = fail_attempt budget_params ''Token limit reached (1000). Current usage: 1000 tokens''
         stale_ceiling_state \<and>
   world (executeCommand budget_env budget_params stale_queue []) = [''chat'', ''GoBack'', ''chat''] \<and>
   map (\<lambda>r. (status r, error r, data r, tok_total (tokenUsage r)))
       (commandResults (queue_state (executeCommand budget_env budget_params stale_queue [])))
     = [(Failed, Some ''Token limit reached (1000). Current usage: 1000 tokens'', Some JNull, 1000)]"
proof -
  let ?first = "respond [page_call 1 ''GoBack''] 500"
  let ?msg = "resp_message ?first"
  let ?init = "initialMessages budget_params"
  let ?msgs = "?init @
       [AssistantMessage None [page_call 1 ''GoBack''],
        ToolMessage \<lparr>tool_call_id = ''call_1'', content = ''GoBack done''\<rparr>]"
  let ?r = "(commandRecord stale_entry_state)
              \<lparr>toolCalls := [\<lparr>ev_name = ''GoBack'', ev_args = JObj [], ev_id = ''call_1''\<rparr>]\<rparr>"
  let ?results = "[\<lparr>tool_call_id = ''call_1'', content = ''GoBack done''\<rparr>]"
  note t = token_ceiling_preemptive[where p = budget_params and env = budget_env and w = "[]"
      and first = ?first and ?w1.0 = "[''chat'']" and q = stale_queue]
  have stale: "tok_total (currentTokenUsage stale_queue) = 900"
    by (simp add: stale_queue_def)
  have h1: "apiKey budget_params \<noteq> [] \<and>
    chat_completions_create budget_env ?init [] = (Inr ?first, [''chat''])"
    by code_simp
  have tk: "tokens_of ?first = five_hundred_tokens" by code_simp
  have A: "\<exists>s0. executeCommand budget_env budget_params stale_queue [] =
            exec_loop budget_env budget_params 0 ?msg ?init s0 \<and>
         currentTokenUsage (queue_state s0) = five_hundred_tokens \<and> world s0 = [''chat'']"
    using t[THEN conjunct1] h1 unfolding tk by blast
  have h2: "tool_calls ?msg \<noteq> [] \<and> int 0 < min (maxToolCalls budget_params) 50 \<and>
      \<not> shouldStopCurrent (queue_state stale_entry_state) \<and>
      int (tok_total (currentTokenUsage (queue_state stale_entry_state))) < maxTokens budget_params \<and>
      record_tool_calls budget_env (tool_calls ?msg) (commandRecord stale_entry_state) = Inr ?r \<and>
      dispatch_calls budget_env budget_params (tool_calls ?msg)
        (stale_entry_state\<lparr>commandRecord := ?r\<rparr>) [] = Inr (stale_dispatched_state, ?results) \<and>
      chat_completions_create budget_env
        (?init @ [AssistantMessage (msg_content ?msg) (tool_calls ?msg)] @ map ToolMessage ?results)
        (world stale_dispatched_state) = (Inr ?first, [''chat'', ''GoBack'', ''chat''])"
    by code_simp
  have ms: "?init @ [AssistantMessage (msg_content ?msg) (tool_calls ?msg)] @ map ToolMessage ?results
            = ?msgs" by (simp add: respond_def)
  have sum: "add_usage (currentTokenUsage (queue_state stale_entry_state)) (tokens_of ?first)
            = thousand_tokens" by code_simp
  have B: "\<exists>s2. exec_loop budget_env budget_params 0 ?msg ?init stale_entry_state =
            exec_loop budget_env budget_params 1 ?msg ?msgs s2 \<and>
         currentTokenUsage (queue_state s2) = thousand_tokens \<and>
         world s2 = [''chat'', ''GoBack'', ''chat'']"
    using t[THEN conjunct2, THEN conjunct1, rule_format, OF h2] unfolding ms sum by simp
  have run: "executeCommand budget_env budget_params stale_queue []
     = exec_loop budget_env budget_params 1 ?msg ?msgs stale_ceiling_state"
    by code_simp
  have h3: "maxTokens budget_params \<le> int (tok_total (currentTokenUsage (queue_state stale_ceiling_state)))"
    by (simp add: budget_params_def sample_params_def stale_ceiling_state_def thousand_tokens_def)
  have g: "tool_calls ?msg \<noteq> [] \<and> int 1 < min (maxToolCalls budget_params) 50 \<and>
          \<not> shouldStopCurrent (queue_state stale_ceiling_state)"
    by (simp add: respond_def budget_params_def sample_params_def stale_ceiling_state_def idle_queue_def)
  have m: "token_limit_message (maxTokens budget_params)
             (tok_total (currentTokenUsage (queue_state stale_ceiling_state)))
           = ''Token limit reached (1000). Current usage: 1000 tokens''"
    by code_simp
  note c = t[THEN conjunct2, THEN conjunct2, rule_format, OF h3,
      of 1 ?msg ?msgs, unfolded Let_def m]
  have f: "exec_loop budget_env budget_params 1 ?msg ?msgs stale_ceiling_state
     = fail_attempt budget_params ''Token limit reached (1000). Current usage: 1000 tokens''
         stale_ceiling_state" using c[THEN conjunct2, THEN conjunct2, THEN conjunct2, THEN mp, OF g]
    by (rule conjunct1)
  have C: "executeCommand budget_env budget_params stale_queue []
     = fail_attempt budget_params ''Token limit reached (1000). Current usage: 1000 tokens''
         stale_ceiling_state" using run f by (rule trans)
  have w0: "world stale_ceiling_state = [''chat'', ''GoBack'', ''chat'']"
    by (simp add: stale_ceiling_state_def)
  have D: "world (executeCommand budget_env budget_params stale_queue [])
            = [''chat'', ''GoBack'', ''chat'']"
    unfolding run using c[THEN conjunct1] w0 by (rule trans)
  have q: "map (\<lambda>r. (status r, error r, data r, tok_total (tokenUsage r)))
       (commandResults (queue_state (fail_attempt budget_params
           ''Token limit reached (1000). Current usage: 1000 tokens'' stale_ceiling_state)))
     = [(Failed, Some ''Token limit reached (1000). Current usage: 1000 tokens'', Some JNull, 1000)]"
    by code_simp
  have E: "map (\<lambda>r. (status r, error r, data r, tok_total (tokenUsage r)))
       (commandResults (queue_state (executeCommand budget_env budget_params stale_queue [])))
     = [(Failed, Some ''Token limit reached (1000). Current usage: 1000 tokens'', Some JNull, 1000)]"
    unfolding C by (rule q)
  show ?thesis using stale A B C D E by (intro conjI)
qed

text \<open>
  Claim C1, as the code has it. When the iteration counter has reached the cap (the smaller of
  \<open>maxToolCalls\<close> and 50) while the last response still asks for tool calls, the loop is
  left and the attempt ends as completed, not failed: no further tool is dispatched and no
  round-trip made, the error stays as it was, and the queue receives a completed result whose
  data is the text of the last response, or \<open>Command completed\<close> when it has none.
\<close>

theorem iteration_cap_completes:
  assumes "tool_calls msg \<noteq> []" and "min (maxToolCalls p) 50 \<le> int it"
  shows "let final = exec_loop env p it msg msgs s in
         final = finish_without_done p msg s \<and>
         rec_status (commandRecord final) = Completed \<and>
         rec_error (commandRecord final) = rec_error (commandRecord s) \<and>
         toolResults (commandRecord final) = toolResults (commandRecord s) \<and>
         world final = world s \<and>
         queue_state final =
           addCommandResult
             \<lparr>command = p_command p, status = Completed, error = None,
              data = Some (JStr (case msg_content msg of
                                   None \<Rightarrow> ''Command completed''
                                 | Some c \<Rightarrow> if c = [] then ''Command completed'' else c)),
              commandHistory = priorHistory p @ [commandRecord final],
              tokenUsage = currentTokenUsage (queue_state s)\<rparr>
             (queue_state s)"
proof -
  have "\<not> int it < min (maxToolCalls p) 50"
    using assms(2) by linarith
  then have "\<not> (tool_calls msg \<noteq> [] \<and> int it < min (maxToolCalls p) 50)"
    by blast
  then have e: "exec_loop env p it msg msgs s = finish_without_done p msg s"
    by (rule exec_loop_exit)
  show ?thesis
    unfolding Let_def e
    by (simp add: finish_without_done_fields finish_without_done_queue[symmetric])
qed

text \<open>A model that asks for a page action in every response, with two iterations allowed.\<close>

theorem iteration_cap_completes_witness:
  "executeCommand insistent_env sample_params idle_queue []
     = finish_without_done sample_params (resp_message (respond [page_call 1 ''GoBack''] 10))
         cap_state \<and>
   rec_status (commandRecord (executeCommand insistent_env sample_params idle_queue []))
     = Completed \<and>
   world (executeCommand insistent_env sample_params idle_queue [])
     = [''chat'', ''GoBack'', ''chat'', ''GoBack'', ''chat'']"
proof -
  let ?msg = "resp_message (respond [page_call 1 ''GoBack''] 10)"
  let ?msgs = "initialMessages sample_params @
       [AssistantMessage None [page_call 1 ''GoBack''],
        ToolMessage \<lparr>tool_call_id = ''call_1'', content = ''GoBack done''\<rparr>,
        AssistantMessage None [page_call 1 ''GoBack''],
        ToolMessage \<lparr>tool_call_id = ''call_1'', content = ''GoBack done''\<rparr>]"
  have run: "executeCommand insistent_env sample_params idle_queue []
     = exec_loop insistent_env sample_params 2 ?msg ?msgs cap_state"
    by code_simp
  have h1: "tool_calls ?msg \<noteq> []" by (simp add: respond_def)
  have h2: "min (maxToolCalls sample_params) 50 \<le> int 2" by (simp add: sample_params_def)
  note t = iteration_cap_completes[OF h1 h2, of insistent_env ?msgs cap_state, unfolded Let_def]
  have w: "world cap_state = [''chat'', ''GoBack'', ''chat'', ''GoBack'', ''chat'']"
    by (simp add: cap_state_def)
  from t have f: "exec_loop insistent_env sample_params 2 ?msg ?msgs cap_state
      = finish_without_done sample_params ?msg cap_state" by (rule conjunct1)
  from t have st: "rec_status (commandRecord
      (exec_loop insistent_env sample_params 2 ?msg ?msgs cap_state)) = Completed" by blast
  from t have w2: "world (exec_loop insistent_env sample_params 2 ?msg ?msgs cap_state)
      = world cap_state" by blast
  have A: "executeCommand insistent_env sample_params idle_queue []
     = finish_without_done sample_params ?msg cap_state"
    using run f by (rule trans)
  have B: "rec_status (commandRecord (executeCommand insistent_env sample_params idle_queue []))
     = Completed" unfolding run by (rule st)
  have C: "world (executeCommand insistent_env sample_params idle_queue [])
     = [''chat'', ''GoBack'', ''chat'', ''GoBack'', ''chat'']"
    unfolding run using w2 w by (rule trans)
  show ?thesis using A B C by (intro conjI)
qed

text \<open>
  Claim C1 as stated fails: with a cap of two iterations and a model that keeps asking for
  tool calls, two batches run and the attempt is reported as completed.
\<close>

theorem iteration_cap_counterexample:
  "tool_calls (resp_message (respond [page_call 1 ''GoBack''] 10)) \<noteq> [] \<and>
   min (maxToolCalls sample_params) 50 = 2 \<and>
   length (toolCalls (commandRecord (executeCommand insistent_env sample_params idle_queue []))) = 2 \<and>
   rec_status (commandRecord (executeCommand insistent_env sample_params idle_queue []))
     = Completed \<and>
   map (\<lambda>r. (status r, error r, data r))
       (commandResults (queue_state (executeCommand insistent_env sample_params idle_queue [])))
     = [(Completed, None, Some (JStr ''Command completed''))]"
  by code_simp

text \<open>
  One malformed argument string anywhere in a batch fails the whole attempt as soon as the
  loop enters its body.
\<close>

lemma record_tool_calls_malformed:
  "c \<in> set calls \<Longrightarrow> JSON_parse env (call_arguments c) = Inl e \<Longrightarrow>
     \<exists>m r. record_tool_calls env calls r0 = Inl (m, r)"
  by (induction calls arbitrary: r0) (auto split: sum.splits)

lemma exec_loop_malformed:
  assumes "c \<in> set (tool_calls msg)" "JSON_parse env (call_arguments c) = Inl e"
    "int it < min (maxToolCalls p) 50" "\<not> shouldStopCurrent (queue_state s)"
    "int (tok_total (currentTokenUsage (queue_state s))) < maxTokens p"
  shows "\<exists>m r. exec_loop env p it msg msgs s = fail_attempt p m (s\<lparr>commandRecord := r\<rparr>)"
proof -
  from record_tool_calls_malformed[OF assms(1,2)] obtain m r where
    "record_tool_calls env (tool_calls msg) (commandRecord s) = Inl (m, r)" by blast
  moreover have "tool_calls msg \<noteq> []" using assms(1) by auto
  ultimately have "exec_loop env p it msg msgs s = fail_attempt p m (s\<lparr>commandRecord := r\<rparr>)"
    using assms(3,4,5) by (subst exec_loop.simps) simp
  then show ?thesis by blast
qed

text \<open>
  Claim C2 does not hold of the code. The loop that logs the tool calls parses every argument
  string before the dispatch loop starts and outside its \<open>try\<close>: in a batch of a
  well-formed GoBack call and a ClickElement call whose arguments are \<open>{\<close>, the
  SyntaxError ends the attempt as failed, no tool result is recorded and the well-formed call
  never reaches the page.
\<close>

theorem malformed_arguments_fail_attempt:
  "rec_status (commandRecord (executeCommand malformed_env sample_params idle_queue [])) = Failed \<and>
   rec_error (commandRecord (executeCommand malformed_env sample_params idle_queue []))
     = Some ''Unexpected end of JSON input'' \<and>
   toolResults (commandRecord (executeCommand malformed_env sample_params idle_queue [])) = [] \<and>
   world (executeCommand malformed_env sample_params idle_queue []) = [''chat''] \<and>
   map (\<lambda>r. (status r, error r, data r))
       (commandResults (queue_state (executeCommand malformed_env sample_params idle_queue [])))
     = [(Failed, Some ''Unexpected end of JSON input'', Some JNull)]"
  by code_simp

lemma Done_null_error_plain: "\<not> str_includes Done_null_error ''COMMAND_COMPLETE''"
  by code_simp

lemma find_tool_Done: "find_tool ''Done'' = Some DoneTool"
  by code_simp

lemma complete_attempt_fields:
  "rec_status (commandRecord (complete_attempt p c result d s)) = Completed"
  "toolResults (commandRecord (complete_attempt p c result d s)) =
     toolResults (commandRecord s) @ [\<lparr>tool_call_id = call_id c, content = result\<rparr>]"
  "world (complete_attempt p c result d s) = world s"
  by (simp_all add: complete_attempt_def)

lemma complete_attempt_queue:
  "queue_state (complete_attempt p c result d s) =
     addCommandResult
       \<lparr>command = p_command p, status = Completed, error = None, data = d,
        commandHistory = priorHistory p @ [commandRecord (complete_attempt p c result d s)],
        tokenUsage = currentTokenUsage (queue_state s)\<rparr>
       (queue_state s)"
  by (simp add: complete_attempt_def report_def)

lemma dispatch_call_Done_completes:
  assumes "call_name toolCall = ''Done''"
    "JSON_parse env (call_arguments toolCall) = Inr args"
    "Done_implementation env args = (ws, Inr result)"
    "str_includes result ''COMMAND_COMPLETE''"
    "JSON_parse env result = Inr (JObj kvs)"
  shows "dispatch_call env p toolCall s =
           Inl (complete_attempt p toolCall result (map_of kvs ''data'') s)"
  using assms by (simp add: dispatch_call_def find_tool_Done run_tool_def Let_def)

text \<open>
  Claim C6. The Done tool on its \<open>data\<close> argument: null or undefined data give the error
  text with a warning, a text without the completion marker, which the dispatch records as an
  ordinary tool result (the command is not finalized); an empty array gives a warning and
  the completion sentinel all the same; a string that parses as JSON is carried parsed; any
  other data is carried unchanged. The sentinel is the serialization of the object with
  \<open>type\<close> \<open>COMMAND_COMPLETE\<close> and the data; where \<open>JSON.stringify\<close> and \<open>JSON.parse\<close>
  do on that object what the built-ins do (the text contains the marker and parses back to
  the object), the dispatch of the Done call ends the attempt as completed, with the tool
  result recorded and the carried data reported to the queue.
\<close>

theorem Done_validates_data:
  "(args \<noteq> JNull \<and> (property args ''data'' = None \<or> property args ''data'' = Some JNull) \<longrightarrow>
      Done_implementation env args = ([Done_null_warning], Inr Done_null_error) \<and>
      \<not> str_includes Done_null_error ''COMMAND_COMPLETE'' \<and>
      (\<forall>p toolCall s.
          call_name toolCall = ''Done'' \<and> JSON_parse env (call_arguments toolCall) = Inr args \<longrightarrow>
          dispatch_call env p toolCall s =
            Inr (push_result \<lparr>tool_call_id = call_id toolCall, content = Done_null_error\<rparr> s,
                 \<lparr>tool_call_id = call_id toolCall, content = Done_null_error\<rparr>))) \<and>
   (property args ''data'' = Some (JArr []) \<longrightarrow>
      Done_implementation env args =
        ([Done_empty_warning],
         Inr (JSON_stringify env
                (JObj [(''type'', JStr ''COMMAND_COMPLETE''), (''data'', JArr [])])))) \<and>
   (\<forall>str v. property args ''data'' = Some (JStr str) \<and> JSON_parse env str = Inr v \<longrightarrow>
      Done_implementation env args =
        ([], Inr (JSON_stringify env
                    (JObj [(''type'', JStr ''COMMAND_COMPLETE''), (''data'', v)])))) \<and>
   (\<forall>d. property args ''data'' = Some d \<and> d \<noteq> JNull \<and> d \<noteq> JArr [] \<and>
        (\<forall>str. d = JStr str \<longrightarrow> (\<exists>e. JSON_parse env str = Inl e)) \<longrightarrow>
      Done_implementation env args =
        ([], Inr (JSON_stringify env
                    (JObj [(''type'', JStr ''COMMAND_COMPLETE''), (''data'', d)])))) \<and>
   (\<forall>ws v p toolCall s.
      Done_implementation env args =
        (ws, Inr (JSON_stringify env
                    (JObj [(''type'', JStr ''COMMAND_COMPLETE''), (''data'', v)]))) \<and>
      call_name toolCall = ''Done'' \<and> JSON_parse env (call_arguments toolCall) = Inr args \<and>
      str_includes
        (JSON_stringify env (JObj [(''type'', JStr ''COMMAND_COMPLETE''), (''data'', v)]))
        ''COMMAND_COMPLETE'' \<and>
      JSON_parse env
        (JSON_stringify env (JObj [(''type'', JStr ''COMMAND_COMPLETE''), (''data'', v)]))
        = Inr (JObj [(''type'', JStr ''COMMAND_COMPLETE''), (''data'', v)]) \<longrightarrow>
      (let result = JSON_stringify env
                      (JObj [(''type'', JStr ''COMMAND_COMPLETE''), (''data'', v)]);
           final = complete_attempt p toolCall result (Some v) s
       in dispatch_call env p toolCall s = Inl final \<and>
          rec_status (commandRecord final) = Completed \<and>
          toolResults (commandRecord final) =
            toolResults (commandRecord s) @
              [\<lparr>tool_call_id = call_id toolCall, content = result\<rparr>] \<and>
          queue_state final =
            addCommandResult
              \<lparr>command = p_command p, status = Completed, error = None, data = Some v,
               commandHistory = priorHistory p @ [commandRecord final],
               tokenUsage = currentTokenUsage (queue_state s)\<rparr>
              (queue_state s)))"
proof -
  have n: "args \<noteq> JNull \<and> (property args ''data'' = None \<or> property args ''data'' = Some JNull) \<longrightarrow>
      Done_implementation env args = ([Done_null_warning], Inr Done_null_error)"
    by (auto simp: Done_implementation_def)
  have nd: "args \<noteq> JNull \<and> (property args ''data'' = None \<or> property args ''data'' = Some JNull) \<longrightarrow>
      (\<forall>p toolCall s.
          call_name toolCall = ''Done'' \<and> JSON_parse env (call_arguments toolCall) = Inr args \<longrightarrow>
          dispatch_call env p toolCall s =
            Inr (push_result \<lparr>tool_call_id = call_id toolCall, content = Done_null_error\<rparr> s,
                 \<lparr>tool_call_id = call_id toolCall, content = Done_null_error\<rparr>))"
    using n Done_null_error_plain
    by (auto simp: dispatch_call_def find_tool_Done run_tool_def Let_def)
  have e: "property args ''data'' = Some (JArr []) \<longrightarrow>
      Done_implementation env args =
        ([Done_empty_warning],
         Inr (JSON_stringify env
                (JObj [(''type'', JStr ''COMMAND_COMPLETE''), (''data'', JArr [])])))"
    by (cases args) (auto simp: Done_implementation_def completion_payload_def)
  have s: "\<forall>str v. property args ''data'' = Some (JStr str) \<and> JSON_parse env str = Inr v \<longrightarrow>
      Done_implementation env args =
        ([], Inr (JSON_stringify env
                    (JObj [(''type'', JStr ''COMMAND_COMPLETE''), (''data'', v)])))"
    by (cases args) (auto simp: Done_implementation_def completion_payload_def)
  have o: "\<forall>d. property args ''data'' = Some d \<and> d \<noteq> JNull \<and> d \<noteq> JArr [] \<and>
        (\<forall>str. d = JStr str \<longrightarrow> (\<exists>e. JSON_parse env str = Inl e)) \<longrightarrow>
      Done_implementation env args =
        ([], Inr (JSON_stringify env
                    (JObj [(''type'', JStr ''COMMAND_COMPLETE''), (''data'', d)])))"
  proof (intro allI impI)
    fix d
    assume h: "property args ''data'' = Some d \<and> d \<noteq> JNull \<and> d \<noteq> JArr [] \<and>
        (\<forall>str. d = JStr str \<longrightarrow> (\<exists>e. JSON_parse env str = Inl e))"
    then have a: "args \<noteq> JNull" by (cases args) auto
    show "Done_implementation env args =
        ([], Inr (JSON_stringify env
                    (JObj [(''type'', JStr ''COMMAND_COMPLETE''), (''data'', d)])))"
      using h a by (cases d) (auto simp: Done_implementation_def completion_payload_def)
  qed
  have c: "\<forall>ws v p toolCall s.
      Done_implementation env args =
        (ws, Inr (JSON_stringify env
                    (JObj [(''type'', JStr ''COMMAND_COMPLETE''), (''data'', v)]))) \<and>
      call_name toolCall = ''Done'' \<and> JSON_parse env (call_arguments toolCall) = Inr args \<and>
      str_includes
        (JSON_stringify env (JObj [(''type'', JStr ''COMMAND_COMPLETE''), (''data'', v)]))
        ''COMMAND_COMPLETE'' \<and>
      JSON_parse env
        (JSON_stringify env (JObj [(''type'', JStr ''COMMAND_COMPLETE''), (''data'', v)]))
        = Inr (JObj [(''type'', JStr ''COMMAND_COMPLETE''), (''data'', v)]) \<longrightarrow>
      (let result = JSON_stringify env
                      (JObj [(''type'', JStr ''COMMAND_COMPLETE''), (''data'', v)]);
           final = complete_attempt p toolCall result (Some v) s
       in dispatch_call env p toolCall s = Inl final \<and>
          rec_status (commandRecord final) = Completed \<and>
          toolResults (commandRecord final) =
            toolResults (commandRecord s) @
              [\<lparr>tool_call_id = call_id toolCall, content = result\<rparr>] \<and>
          queue_state final =
            addCommandResult
              \<lparr>command = p_command p, status = Completed, error = None, data = Some v,
               commandHistory = priorHistory p @ [commandRecord final],
               tokenUsage = currentTokenUsage (queue_state s)\<rparr>
              (queue_state s))"
  proof (intro allI impI)
    fix ws v p and toolCall :: tool_call and s :: "'a exec_state"
    let ?obj = "JObj [(''type'', JStr ''COMMAND_COMPLETE''), (''data'', v)]"
    let ?result = "JSON_stringify env ?obj"
    assume h: "Done_implementation env args = (ws, Inr ?result) \<and>
      call_name toolCall = ''Done'' \<and> JSON_parse env (call_arguments toolCall) = Inr args \<and>
      str_includes ?result ''COMMAND_COMPLETE'' \<and>
      JSON_parse env ?result = Inr ?obj"
    have "dispatch_call env p toolCall s =
       Inl (complete_attempt p toolCall ?result
              (map_of [(''type'', JStr ''COMMAND_COMPLETE''), (''data'', v)] ''data'') s)"
      using h dispatch_call_Done_completes[of toolCall env args ws ?result _ p s] by blast
    then have d: "dispatch_call env p toolCall s =
       Inl (complete_attempt p toolCall ?result (Some v) s)" by simp
    show "let result = ?result; final = complete_attempt p toolCall result (Some v) s
       in dispatch_call env p toolCall s = Inl final \<and>
          rec_status (commandRecord final) = Completed \<and>
          toolResults (commandRecord final) =
            toolResults (commandRecord s) @
              [\<lparr>tool_call_id = call_id toolCall, content = result\<rparr>] \<and>
          queue_state final =
            addCommandResult
              \<lparr>command = p_command p, status = Completed, error = None, data = Some v,
               commandHistory = priorHistory p @ [commandRecord final],
               tokenUsage = currentTokenUsage (queue_state s)\<rparr>
              (queue_state s)"
      unfolding Let_def using d
      by (simp add: complete_attempt_fields complete_attempt_queue[symmetric])
  qed
  show ?thesis
    using n nd e s o c Done_null_error_plain by (intro conjI) blast+
qed

text \<open>
  Null data, missing data, an empty array, an encoded array and a plain string, with the
  texts returned and the commands completed.
\<close>

theorem Done_validates_data_witness:
  "Done_implementation plain_env done_null_args = ([Done_null_warning], Inr Done_null_error) \<and>
   Done_implementation plain_env (JObj []) = ([Done_null_warning], Inr Done_null_error) \<and>
   dispatch_call plain_env sample_params (done_call done_null_args) batch_state =
     Inr (push_result \<lparr>tool_call_id = ''call_9'', content = Done_null_error\<rparr> batch_state,
          \<lparr>tool_call_id = ''call_9'', content = Done_null_error\<rparr>) \<and>
   Done_implementation plain_env done_empty_args =
     ([Done_empty_warning], Inr empty_sentinel_text) \<and>
   Done_implementation plain_env done_encoded_args = ([], Inr encoded_sentinel_text) \<and>
   Done_implementation plain_env done_title_args = ([], Inr title_sentinel_text) \<and>
   str_includes empty_sentinel_text ''COMMAND_COMPLETE'' \<and>
   dispatch_call plain_env sample_params (done_call done_empty_args) batch_state =
     Inl (complete_attempt sample_params (done_call done_empty_args) empty_sentinel_text
            (Some (JArr [])) batch_state) \<and>
   map (\<lambda>r. (status r, error r, data r))
       (commandResults (queue_state
          (executeCommand (done_env done_empty_args) sample_params idle_queue [])))
     = [(Completed, None, Some (JArr []))] \<and>
   map (\<lambda>r. (status r, error r, data r))
       (commandResults (queue_state
          (executeCommand (done_env done_encoded_args) sample_params idle_queue [])))
     = [(Completed, None, Some (JArr [JNum 1, JNum 2]))] \<and>
   map (\<lambda>r. (status r, error r, data r))
       (commandResults (queue_state
          (executeCommand (done_env done_title_args) sample_params idle_queue [])))
     = [(Completed, None, Some (JStr ''Example Title''))]"
proof -
  let ?obj = "\<lambda>v. JObj [(''type'', JStr ''COMMAND_COMPLETE''), (''data'', v)]"
  have s: "JSON_stringify plain_env = stringify_ascii"
    by (simp add: plain_env_def scripted_env_def)
  have t1: "stringify_ascii (?obj (JArr [])) = empty_sentinel_text" by code_simp
  have t2: "stringify_ascii (?obj (JArr [JNum 1, JNum 2])) = encoded_sentinel_text" by code_simp
  have t3: "stringify_ascii (?obj (JStr ''Example Title'')) = title_sentinel_text" by code_simp
  have a: "done_null_args \<noteq> JNull \<and> (property done_null_args ''data'' = None \<or>
            property done_null_args ''data'' = Some JNull)"
    by (simp add: done_null_args_def)
  have b: "JObj [] \<noteq> JNull \<and> (property (JObj []) ''data'' = None \<or>
            property (JObj []) ''data'' = Some JNull)"
    by simp
  have c: "property done_empty_args ''data'' = Some (JArr [])"
    by (simp add: done_empty_args_def)
  have d: "property done_encoded_args ''data'' = Some (JStr ''[1,2]'') \<and>
           JSON_parse plain_env ''[1,2]'' = Inr (JArr [JNum 1, JNum 2])"
    by code_simp
  have e: "property done_title_args ''data'' = Some (JStr ''Example Title'') \<and>
           JStr ''Example Title'' \<noteq> JNull \<and> JStr ''Example Title'' \<noteq> JArr [] \<and>
           (\<forall>str. JStr ''Example Title'' = JStr str \<longrightarrow>
              (\<exists>e. JSON_parse plain_env str = Inl e))"
  proof -
    have "JSON_parse plain_env ''Example Title'' = Inl ''Unexpected end of JSON input''"
      by code_simp
    then show ?thesis by (simp add: done_title_args_def)
  qed
  have pn: "call_name (done_call done_null_args) = ''Done'' \<and>
            JSON_parse plain_env (call_arguments (done_call done_null_args)) = Inr done_null_args"
    by code_simp
  have id: "call_id (done_call done_null_args) = ''call_9''" by (simp add: done_call_def)
  note null_case = Done_validates_data[of done_null_args plain_env, THEN conjunct1, THEN mp, OF a]
  have A: "Done_implementation plain_env done_null_args = ([Done_null_warning], Inr Done_null_error)"
    using null_case by (rule conjunct1)
  have B: "Done_implementation plain_env (JObj []) = ([Done_null_warning], Inr Done_null_error)"
    using Done_validates_data[of "JObj []" plain_env, THEN conjunct1, THEN mp, OF b]
    by (rule conjunct1)
  have N: "dispatch_call plain_env sample_params (done_call done_null_args) batch_state =
     Inr (push_result \<lparr>tool_call_id = ''call_9'', content = Done_null_error\<rparr> batch_state,
          \<lparr>tool_call_id = ''call_9'', content = Done_null_error\<rparr>)"
    using null_case[THEN conjunct2, THEN conjunct2, rule_format, OF pn,
        of sample_params batch_state]
    by (simp only: id)
  have C: "Done_implementation plain_env done_empty_args =
     ([Done_empty_warning], Inr empty_sentinel_text)"
    using Done_validates_data[of done_empty_args plain_env, THEN conjunct2, THEN conjunct1,
        THEN mp, OF c]
    by (simp only: s t1)
  have D: "Done_implementation plain_env done_encoded_args = ([], Inr encoded_sentinel_text)"
    using Done_validates_data[of done_encoded_args plain_env, THEN conjunct2, THEN conjunct2,
        THEN conjunct1, rule_format, OF d]
    by (simp only: s t2)
  have E: "Done_implementation plain_env done_title_args = ([], Inr title_sentinel_text)"
    using Done_validates_data[of done_title_args plain_env, THEN conjunct2, THEN conjunct2,
        THEN conjunct2, THEN conjunct1, rule_format, OF e]
    by (simp only: s t3)
  have I: "str_includes empty_sentinel_text ''COMMAND_COMPLETE''" by code_simp
  have h: "Done_implementation plain_env done_empty_args =
             ([Done_empty_warning], Inr (JSON_stringify plain_env (?obj (JArr [])))) \<and>
      call_name (done_call done_empty_args) = ''Done'' \<and>
      JSON_parse plain_env (call_arguments (done_call done_empty_args)) = Inr done_empty_args \<and>
      str_includes (JSON_stringify plain_env (?obj (JArr []))) ''COMMAND_COMPLETE'' \<and>
      JSON_parse plain_env (JSON_stringify plain_env (?obj (JArr []))) = Inr (?obj (JArr []))"
    by code_simp
  note completes = Done_validates_data[of done_empty_args plain_env, THEN conjunct2,
        THEN conjunct2, THEN conjunct2, THEN conjunct2, rule_format, OF h,
        of sample_params batch_state, unfolded Let_def, THEN conjunct1]
  have F: "dispatch_call plain_env sample_params (done_call done_empty_args) batch_state =
     Inl (complete_attempt sample_params (done_call done_empty_args) empty_sentinel_text
            (Some (JArr [])) batch_state)"
    using completes by (simp only: s t1)
  have G: "map (\<lambda>r. (status r, error r, data r))
       (commandResults (queue_state
          (executeCommand (done_env done_empty_args) sample_params idle_queue [])))
     = [(Completed, None, Some (JArr []))]" by code_simp
  have H: "map (\<lambda>r. (status r, error r, data r))
       (commandResults (queue_state
          (executeCommand (done_env done_encoded_args) sample_params idle_queue [])))
     = [(Completed, None, Some (JArr [JNum 1, JNum 2]))]" by code_simp
  have J: "map (\<lambda>r. (status r, error r, data r))
       (commandResults (queue_state
          (executeCommand (done_env done_title_args) sample_params idle_queue [])))
     = [(Completed, None, Some (JStr ''Example Title''))]" by code_simp
  show ?thesis using A B N C D E I F G H J by (intro conjI)
qed

section \<open>Properties of the page serializer\<close>

text \<open>
  Claim C8 does not hold of the code. \<open>refresh\<close> collects the interactive elements of the
  live document, but looks for their copies after the attributes have been stripped: an
  element that is interactive by an event attribute only is no longer found among the copies,
  and the copies that are found are paired by position with the longer list of originals. On
  a page with a \<open>div\<close> carrying \<open>onclick\<close> before a link, two interactive elements are
  found; id 2 resolves to nothing, and id 1, which the serialized page shows on the link,
  resolves to the \<open>div\<close>.
\<close>

theorem resolve_misses_interactive_element:
  "map live (filter interactive (elements onclick_page)) = [3, 4] \<and>
   mapping (refresh nothing_hidden onclick_page) = [(1, Some 3)] \<and>
   getElementById (refresh nothing_hidden onclick_page) 1 = Some 3 \<and>
   getElementById (refresh nothing_hidden onclick_page) 2 = None \<and>
   HTML (refresh nothing_hidden onclick_page) =
     Some (Element 0 ''HTML'' []
            [Element 2 ''BODY'' []
               [Element 3 ''DIV'' [] [TextNode ''menu''],
                Element 4 ''A'' [(''id'', ''1'')] [TextNode ''next'']]])"
  by code_simp

text \<open>
  The has-id guards do their part: the empty-wrapper prune and the single-child collapse keep
  every element that carries an \<open>id\<close> attribute, in order and with its attributes.
\<close>

lemma hasAttribute_Element [simp]:
  "hasAttribute (Element r t a cs) name = (name \<in> fst ` set a)"
  by (simp add: hasAttribute_def)

lemma idKeys_not_element: "\<not> isElement n \<Longrightarrow> idKeys n = []"
  by (cases n) simp_all

lemma prunable_no_ids: "prunable c \<Longrightarrow> idKeys c = []"
proof (cases c)
  case (Element r t a cs)
  assume "prunable c"
  with Element have "\<not> hasAttribute c ''id''" and "\<forall>d \<in> set cs. \<not> isElement d"
    by (auto simp: prunable_def list_ex_iff)
  with Element show ?thesis by (simp add: idKeys_not_element)
qed simp_all

lemma idKeys_filter_prunable:
  "concat (map idKeys (filter (\<lambda>c. \<not> prunable c) xs)) = concat (map idKeys xs)"
  by (induction xs) (simp_all add: prunable_no_ids)

lemma pruneEmptyNodes_keeps_ids: "idKeys (pruneEmptyNodes n) = idKeys n"
proof (induction n)
  case (Element r t a cs)
  have "concat (map idKeys (map pruneEmptyNodes cs)) = concat (map idKeys cs)"
    using Element.IH by (induction cs) simp_all
  then show ?case by (simp add: idKeys_filter_prunable)
qed simp_all

lemma collapsible_child_ids:
  "collapsible c \<Longrightarrow> idKeys (hd (childNodes c)) = idKeys c"
proof (cases c)
  case (Element r t a cs)
  assume "collapsible c"
  with Element have n: "\<not> hasAttribute c ''id''" and l: "length cs = 1"
    by (auto simp: collapsible_def)
  from l obtain d where "cs = [d]" by (cases cs) auto
  with Element n show ?thesis by simp
qed (simp_all add: collapsible_def)

lemma collapseSingleChildWrappers_keeps_ids:
  "idKeys (collapseSingleChildWrappers n) = idKeys n"
proof (induction n)
  case (Element r t a cs)
  have "concat (map idKeys
          (map (\<lambda>c. let c' = collapseSingleChildWrappers c
                     in if collapsible c' then hd (childNodes c') else c') cs))
        = concat (map idKeys cs)"
    using Element.IH by (induction cs) (simp_all add: Let_def collapsible_child_ids)
  then show ?case by simp
qed simp_all

lemma id_guard_protects:
  "idKeys (collapseSingleChildWrappers (pruneEmptyNodes n)) = idKeys n"
  by (simp add: collapseSingleChildWrappers_keeps_ids pruneEmptyNodes_keeps_ids)

text \<open>
  Claim C9 does not hold of the code in its conclusion. The attributes are stripped from the
  elements below the copied root only (\<open>querySelectorAll\<close> never yields the element it is
  called on), so an \<open>id\<close> attribute of the page's \<open>html\<close> element reaches the serialized
  output, where it names no entry of the mapping (the guards of the prune steps are not at
  fault, see \<open>id_guard_protects\<close>).
\<close>

theorem root_id_attribute_survives:
  "HTML (refresh nothing_hidden rooted_page) =
     Some (Element 0 ''HTML'' [(''id'', ''top'')]
            [Element 2 ''BODY'' []
               [Element 3 ''A'' [(''id'', ''1'')] [TextNode ''next''],
                Element 4 ''P'' [] [TextNode ''more'']]]) \<and>
   mapping (refresh nothing_hidden rooted_page) = [(1, Some 3)] \<and>
   String_nat 1 \<noteq> ''top''"
  by code_simp

end
